theory Spec2Isabelle
  imports Complex_Main "HOL-Library.Sublist"
begin

section \<open>JavaScript strings\<close>

text \<open>
  A JavaScript string is a sequence of UTF-16 code units; \<open>length\<close> counts them, as
  \<open>String.prototype.length\<close> does. The Korean messages of the handler and the test
  for a Hangul syllable in the handler's catch (line 765) need code units beyond ASCII, so
  a string is a list of code units and ASCII literals are written \<open>ascii ''...''\<close>.
\<close>

type_synonym jsstring = "nat list"

definition ascii :: "string \<Rightarrow> jsstring" where
  "ascii s = map of_char s"

definition isWhiteSpace :: "nat \<Rightarrow> bool" where
  \<comment> \<open>ECMAScript WhiteSpace and LineTerminator: what \<open>trim\<close> strips and \<open>\s\<close> matches.\<close>
  "isWhiteSpace c \<longleftrightarrow>
     c \<in> {0x09, 0x0A, 0x0B, 0x0C, 0x0D, 0x20, 0xA0, 0x1680, 0x2028, 0x2029, 0x202F, 0x205F,
          0x3000, 0xFEFF} \<or> (0x2000 \<le> c \<and> c \<le> 0x200A)"

definition trim :: "jsstring \<Rightarrow> jsstring" where
  "trim s = rev (dropWhile isWhiteSpace (rev (dropWhile isWhiteSpace s)))"

definition startsWith :: "jsstring \<Rightarrow> jsstring \<Rightarrow> bool" where
  "startsWith s x \<longleftrightarrow> take (length x) s = x"

definition endsWith :: "jsstring \<Rightarrow> jsstring \<Rightarrow> bool" where
  "endsWith s x \<longleftrightarrow> length x \<le> length s \<and> drop (length s - length x) s = x"

fun str_includes :: "jsstring \<Rightarrow> jsstring \<Rightarrow> bool" where
  \<comment> \<open>\<open>s.includes(x)\<close>: \<open>x\<close> occurs in \<open>s\<close> as a contiguous run.\<close>
  "str_includes [] x = (x = [])"
| "str_includes (c # s) x = (startsWith (c # s) x \<or> str_includes s x)"

definition isHangulSyllable :: "nat \<Rightarrow> bool" where
  \<comment> \<open>the character class of line 765: U+AC00 to U+D7A3.\<close>
  "isHangulSyllable c \<longleftrightarrow> 0xAC00 \<le> c \<and> c \<le> 0xD7A3"

definition hasHangul :: "jsstring \<Rightarrow> bool" where
  "hasHangul s = list_ex isHangulSyllable s"

section \<open>The messages of the handler\<close>

text \<open>
  The string literals of \<open>supabase/functions/parse-resume/index.ts\<close> (the analyze-job
  function in it), code unit by code unit. Each comment gives the line of the literal and
  its sense.
\<close>

definition MSG_UNSUPPORTED_PROTOCOL :: jsstring where
  \<comment> \<open>line 239: unsupported URL format, enter an http or https URL\<close>
  "MSG_UNSUPPORTED_PROTOCOL =
   [0xC9C0, 0xC6D0, 0xB418, 0xC9C0, 0x0020, 0xC54A, 0xB294, 0x0020, 0x0055, 0x0052, 0x004C,
    0x0020, 0xD615, 0xC2DD, 0xC785, 0xB2C8, 0xB2E4, 0x002E, 0x0020, 0x0068, 0x0074, 0x0074,
    0x0070, 0x0020, 0xB610, 0xB294, 0x0020, 0x0068, 0x0074, 0x0074, 0x0070, 0x0073, 0x0020,
    0x0055, 0x0052, 0x004C, 0xC744, 0x0020, 0xC785, 0xB825, 0xD574, 0xC8FC, 0xC138, 0xC694,
    0x002E]"

definition MSG_INVALID_URL :: jsstring where
  \<comment> \<open>lines 246 and 259: not a valid URL, enter a proper job posting URL\<close>
  "MSG_INVALID_URL =
   [0xC720, 0xD6A8, 0xD558, 0xC9C0, 0x0020, 0xC54A, 0xC740, 0x0020, 0x0055, 0x0052, 0x004C,
    0xC785, 0xB2C8, 0xB2E4, 0x002E, 0x0020, 0xC62C, 0xBC14, 0xB978, 0x0020, 0xCC44, 0xC6A9,
    0x0020, 0xACF5, 0xACE0, 0x0020, 0x0055, 0x0052, 0x004C, 0xC744, 0x0020, 0xC785, 0xB825,
    0xD574, 0xC8FC, 0xC138, 0xC694, 0x002E]"

definition MSG_UNSUPPORTED_SITE :: jsstring where
  \<comment> \<open>line 270: unsupported site, enter the URL of a major job site\<close>
  "MSG_UNSUPPORTED_SITE =
   [0xC9C0, 0xC6D0, 0xB418, 0xC9C0, 0x0020, 0xC54A, 0xB294, 0x0020, 0xC0AC, 0xC774, 0xD2B8,
    0xC785, 0xB2C8, 0xB2E4, 0x002E, 0x0020, 0x004C, 0x0069, 0x006E, 0x006B, 0x0065, 0x0064,
    0x0049, 0x006E, 0x002C, 0x0020, 0xC7A1, 0xCF54, 0xB9AC, 0xC544, 0x002C, 0x0020, 0xC0AC,
    0xB78C, 0xC778, 0x002C, 0x0020, 0xC6D0, 0xD2F0, 0xB4DC, 0x0020, 0xB4F1, 0x0020, 0xC8FC,
    0xC694, 0x0020, 0xCC44, 0xC6A9, 0x0020, 0xC0AC, 0xC774, 0xD2B8, 0xC758, 0x0020, 0x0055,
    0x0052, 0x004C, 0xC744, 0x0020, 0xC785, 0xB825, 0xD574, 0xC8FC, 0xC138, 0xC694, 0x002E]"

definition MSG_URL_TOO_LONG :: jsstring where
  \<comment> \<open>line 276: the URL is too long\<close>
  "MSG_URL_TOO_LONG =
   [0x0055, 0x0052, 0x004C, 0xC774, 0x0020, 0xB108, 0xBB34, 0x0020, 0xAE41, 0xB2C8, 0xB2E4,
    0x002E, 0x0020, 0x0055, 0x0052, 0x004C, 0xC744, 0x0020, 0xC904, 0xC5EC, 0x0020, 0xB2E4,
    0xC2DC, 0x0020, 0xC2DC, 0xB3C4, 0xD574, 0xC8FC, 0xC138, 0xC694, 0x002E]"

definition MSG_MALFORMED_URL :: jsstring where
  \<comment> \<open>line 281: not a correct URL format\<close>
  "MSG_MALFORMED_URL =
   [0xC62C, 0xBC14, 0xB978, 0x0020, 0x0055, 0x0052, 0x004C, 0x0020, 0xD615, 0xC2DD, 0xC774,
    0x0020, 0xC544, 0xB2D9, 0xB2C8, 0xB2E4, 0x002E, 0x0020, 0xC804, 0xCCB4, 0x0020, 0x0055,
    0x0052, 0x004C, 0xC744, 0x0020, 0xD655, 0xC778, 0xD574, 0xC8FC, 0xC138, 0xC694, 0x002E]"

definition MSG_LOGIN_REQUIRED :: jsstring where
  \<comment> \<open>line 295: login required\<close>
  "MSG_LOGIN_REQUIRED =
   [0xB85C, 0xADF8, 0xC778, 0xC774, 0x0020, 0xD544, 0xC694, 0xD569, 0xB2C8, 0xB2E4, 0x002E,
    0x0020, 0xB2E4, 0xC2DC, 0x0020, 0xB85C, 0xADF8, 0xC778, 0xD55C, 0x0020, 0xB4A4, 0x0020,
    0xC7AC, 0xC2DC, 0xB3C4, 0xD574, 0xC8FC, 0xC138, 0xC694, 0x002E]"

definition MSG_AUTH_EXPIRED :: jsstring where
  \<comment> \<open>line 310: authentication expired\<close>
  "MSG_AUTH_EXPIRED =
   [0xC778, 0xC99D, 0xC774, 0x0020, 0xB9CC, 0xB8CC, 0xB418, 0xC5C8, 0xC2B5, 0xB2C8, 0xB2E4,
    0x002E, 0x0020, 0xB2E4, 0xC2DC, 0x0020, 0xB85C, 0xADF8, 0xC778, 0xD574, 0xC8FC, 0xC138,
    0xC694, 0x002E]"

definition MSG_NO_SUBSCRIPTION :: jsstring where
  \<comment> \<open>line 327: subscription information not found\<close>
  "MSG_NO_SUBSCRIPTION =
   [0xAD6C, 0xB3C5, 0x0020, 0xC815, 0xBCF4, 0xB97C, 0x0020, 0xCC3E, 0xC744, 0x0020, 0xC218,
    0x0020, 0xC5C6, 0xC2B5, 0xB2C8, 0xB2E4, 0x002E, 0x0020, 0xACB0, 0xC81C, 0x0020, 0xC0C1,
    0xD0DC, 0xB97C, 0x0020, 0xD655, 0xC778, 0xD558, 0xAC70, 0xB098, 0x0020, 0xACE0, 0xAC1D,
    0xC13C, 0xD130, 0xC5D0, 0x0020, 0xBB38, 0xC758, 0xD574, 0xC8FC, 0xC138, 0xC694, 0x002E]"

definition MSG_NO_CREDITS :: jsstring where
  \<comment> \<open>line 334: not enough AI credits\<close>
  "MSG_NO_CREDITS =
   [0x0041, 0x0049, 0x0020, 0xD06C, 0xB808, 0xB527, 0xC774, 0x0020, 0xBD80, 0xC871, 0xD569,
    0xB2C8, 0xB2E4, 0x002E, 0x0020, 0xD50C, 0xB79C, 0xC744, 0x0020, 0xC5C5, 0xADF8, 0xB808,
    0xC774, 0xB4DC, 0xD558, 0xAC70, 0xB098, 0x0020, 0xD06C, 0xB808, 0xB527, 0xC744, 0x0020,
    0xCDA9, 0xC804, 0xD574, 0xC8FC, 0xC138, 0xC694, 0x002E]"

definition MSG_CREDIT_CONFLICT :: jsstring where
  \<comment> \<open>line 353: credit deduction failed, try again shortly\<close>
  "MSG_CREDIT_CONFLICT =
   [0xD06C, 0xB808, 0xB527, 0x0020, 0xCC28, 0xAC10, 0xC5D0, 0x0020, 0xC2E4, 0xD328, 0xD588,
    0xC2B5, 0xB2C8, 0xB2E4, 0x002E, 0x0020, 0xC7A0, 0xC2DC, 0x0020, 0xD6C4, 0x0020, 0xB2E4,
    0xC2DC, 0x0020, 0xC2DC, 0xB3C4, 0xD574, 0xC8FC, 0xC138, 0xC694, 0x002E]"

definition MSG_BAD_REQUEST :: jsstring where
  \<comment> \<open>line 369: the request format is not correct\<close>
  "MSG_BAD_REQUEST =
   [0xC694, 0xCCAD, 0x0020, 0xD615, 0xC2DD, 0xC774, 0x0020, 0xC62C, 0xBC14, 0xB974, 0xC9C0,
    0x0020, 0xC54A, 0xC2B5, 0xB2C8, 0xB2E4, 0x002E, 0x0020, 0xC785, 0xB825, 0x0020, 0xAC12,
    0xC744, 0x0020, 0xD655, 0xC778, 0xD558, 0xACE0, 0x0020, 0xB2E4, 0xC2DC, 0x0020, 0xC2DC,
    0xB3C4, 0xD574, 0xC8FC, 0xC138, 0xC694, 0x002E]"

definition MSG_NO_FIRECRAWL_KEY :: jsstring where
  \<comment> \<open>line 396: page analysis is not configured\<close>
  "MSG_NO_FIRECRAWL_KEY =
   [0xD398, 0xC774, 0xC9C0, 0x0020, 0xBD84, 0xC11D, 0x0020, 0xC124, 0xC815, 0xC774, 0x0020,
    0xC644, 0xB8CC, 0xB418, 0xC9C0, 0x0020, 0xC54A, 0xC558, 0xC2B5, 0xB2C8, 0xB2E4, 0x002E,
    0x0020, 0xC7A0, 0xC2DC, 0x0020, 0xD6C4, 0x0020, 0xB2E4, 0xC2DC, 0x0020, 0xC2DC, 0xB3C4,
    0xD558, 0xAC70, 0xB098, 0x0020, 0xACE0, 0xAC1D, 0xC13C, 0xD130, 0xC5D0, 0x0020, 0xBB38,
    0xC758, 0xD574, 0xC8FC, 0xC138, 0xC694, 0x002E]"

definition MSG_NO_GEMINI_KEY :: jsstring where
  \<comment> \<open>line 404: AI is not configured\<close>
  "MSG_NO_GEMINI_KEY =
   [0x0041, 0x0049, 0x0020, 0xC124, 0xC815, 0xC774, 0x0020, 0xC644, 0xB8CC, 0xB418, 0xC9C0,
    0x0020, 0xC54A, 0xC558, 0xC2B5, 0xB2C8, 0xB2E4, 0x002E, 0x0020, 0xC7A0, 0xC2DC, 0x0020,
    0xD6C4, 0x0020, 0xB2E4, 0xC2DC, 0x0020, 0xC2DC, 0xB3C4, 0xD558, 0xAC70, 0xB098, 0x0020,
    0xACE0, 0xAC1D, 0xC13C, 0xD130, 0xC5D0, 0x0020, 0xBB38, 0xC758, 0xD574, 0xC8FC, 0xC138,
    0xC694, 0x002E]"

definition MSG_UNSUPPORTED_BY_SCRAPER :: jsstring where
  \<comment> \<open>line 508: automatic analysis is limited, paste the posting text\<close>
  "MSG_UNSUPPORTED_BY_SCRAPER =
   [0x004C, 0x0069, 0x006E, 0x006B, 0x0065, 0x0064, 0x0049, 0x006E, 0x0020, 0xACF5, 0xACE0,
    0xB294, 0x0020, 0xD604, 0xC7AC, 0x0020, 0xC790, 0xB3D9, 0x0020, 0xBD84, 0xC11D, 0xC774,
    0x0020, 0xC81C, 0xD55C, 0xB429, 0xB2C8, 0xB2E4, 0x002E, 0x0020, 0xACF5, 0xACE0, 0x0020,
    0xB0B4, 0xC6A9, 0xC744, 0x0020, 0xC9C1, 0xC811, 0x0020, 0xBCF5, 0xC0AC, 0xD558, 0xC5EC,
    0x0020, 0xC785, 0xB825, 0xD574, 0xC8FC, 0xC138, 0xC694, 0x002E]"

definition MSG_SCRAPE_FAILED :: jsstring where
  \<comment> \<open>line 516: could not fetch the page content\<close>
  "MSG_SCRAPE_FAILED =
   [0xD398, 0xC774, 0xC9C0, 0x0020, 0xB0B4, 0xC6A9, 0xC744, 0x0020, 0xAC00, 0xC838, 0xC624,
    0xC9C0, 0x0020, 0xBABB, 0xD588, 0xC2B5, 0xB2C8, 0xB2E4, 0x002E, 0x0020, 0x0055, 0x0052,
    0x004C, 0xC744, 0x0020, 0xD655, 0xC778, 0xD558, 0xAC70, 0xB098, 0x0020, 0xACF5, 0xACE0,
    0x0020, 0xB0B4, 0xC6A9, 0xC744, 0x0020, 0xC9C1, 0xC811, 0x0020, 0xC785, 0xB825, 0xD574,
    0xC8FC, 0xC138, 0xC694, 0x002E]"

definition MSG_CONTENT_TOO_SHORT :: jsstring where
  \<comment> \<open>line 531: cannot retrieve the page content\<close>
  "MSG_CONTENT_TOO_SHORT =
   [0xD398, 0xC774, 0xC9C0, 0x0020, 0xB0B4, 0xC6A9, 0xC744, 0x0020, 0xAC00, 0xC838, 0xC62C,
    0x0020, 0xC218, 0x0020, 0xC5C6, 0xC2B5, 0xB2C8, 0xB2E4, 0x002E, 0x0020, 0x0055, 0x0052,
    0x004C, 0xC744, 0x0020, 0xD655, 0xC778, 0xD558, 0xAC70, 0xB098, 0x0020, 0xACF5, 0xACE0,
    0x0020, 0xB0B4, 0xC6A9, 0xC744, 0x0020, 0xC9C1, 0xC811, 0x0020, 0xC785, 0xB825, 0xD574,
    0xC8FC, 0xC138, 0xC694, 0x002E]"

definition MSG_RATE_LIMITED :: jsstring where
  \<comment> \<open>line 692: too many requests\<close>
  "MSG_RATE_LIMITED =
   [0xC694, 0xCCAD, 0xC774, 0x0020, 0xB108, 0xBB34, 0x0020, 0xB9CE, 0xC2B5, 0xB2C8, 0xB2E4,
    0x002E, 0x0020, 0xC7A0, 0xC2DC, 0x0020, 0xD6C4, 0x0020, 0xB2E4, 0xC2DC, 0x0020, 0xC2DC,
    0xB3C4, 0xD574, 0xC8FC, 0xC138, 0xC694, 0x002E]"

definition MSG_AI_CREDITS_NEEDED :: jsstring where
  \<comment> \<open>line 698: AI credits are needed\<close>
  "MSG_AI_CREDITS_NEEDED =
   [0x0041, 0x0049, 0x0020, 0xD06C, 0xB808, 0xB527, 0xC774, 0x0020, 0xD544, 0xC694, 0xD569,
    0xB2C8, 0xB2E4, 0x002E, 0x0020, 0xD06C, 0xB808, 0xB527, 0xC744, 0x0020, 0xCDA9, 0xC804,
    0xD55C, 0x0020, 0xB4A4, 0x0020, 0xB2E4, 0xC2DC, 0x0020, 0xC2DC, 0xB3C4, 0xD574, 0xC8FC,
    0xC138, 0xC694, 0x002E]"

definition MSG_AI_FAILED :: jsstring where
  \<comment> \<open>line 704: AI analysis failed\<close>
  "MSG_AI_FAILED =
   [0x0041, 0x0049, 0x0020, 0xBD84, 0xC11D, 0xC5D0, 0x0020, 0xC2E4, 0xD328, 0xD588, 0xC2B5,
    0xB2C8, 0xB2E4, 0x002E, 0x0020, 0xC7A0, 0xC2DC, 0x0020, 0xD6C4, 0x0020, 0xB2E4, 0xC2DC,
    0x0020, 0xC2DC, 0xB3C4, 0xD574, 0xC8FC, 0xC138, 0xC694, 0x002E]"

definition MSG_NO_CONTENT :: jsstring where
  \<comment> \<open>line 731: the posting content could not be extracted\<close>
  "MSG_NO_CONTENT =
   [0xACF5, 0xACE0, 0x0020, 0xB0B4, 0xC6A9, 0xC744, 0x0020, 0xCD94, 0xCD9C, 0xD560, 0x0020,
    0xC218, 0x0020, 0xC5C6, 0xC2B5, 0xB2C8, 0xB2E4, 0x002E, 0x0020, 0xD398, 0xC774, 0xC9C0,
    0xAC00, 0x0020, 0xB9C8, 0xAC10, 0xB418, 0xC5C8, 0xAC70, 0xB098, 0x0020, 0xC811, 0xADFC,
    0xD560, 0x0020, 0xC218, 0x0020, 0xC5C6, 0xB294, 0x0020, 0xC0C1, 0xD0DC, 0xC77C, 0x0020,
    0xC218, 0x0020, 0xC788, 0xC2B5, 0xB2C8, 0xB2E4, 0x002E]"

definition MSG_NOT_A_POSTING :: jsstring where
  \<comment> \<open>line 742: this is not a job posting\<close>
  "MSG_NOT_A_POSTING =
   [0xACF5, 0xACE0, 0xAC00, 0x0020, 0xC544, 0xB2D9, 0xB2C8, 0xB2E4, 0x002E, 0x0020, 0xCC44,
    0xC6A9, 0x0020, 0xACF5, 0xACE0, 0x0020, 0x0055, 0x0052, 0x004C, 0xC744, 0x0020, 0xC785,
    0xB825, 0xD574, 0xC8FC, 0xC138, 0xC694, 0x002E]"

definition fallbackMessage :: jsstring where
  \<comment> \<open>line 763: a server error occurred, try again shortly\<close>
  "fallbackMessage =
   [0xC11C, 0xBC84, 0x0020, 0xC624, 0xB958, 0xAC00, 0x0020, 0xBC1C, 0xC0DD, 0xD588, 0xC2B5,
    0xB2C8, 0xB2E4, 0x002E, 0x0020, 0xC7A0, 0xC2DC, 0x0020, 0xD6C4, 0x0020, 0xB2E4, 0xC2DC,
    0x0020, 0xC2DC, 0xB3C4, 0xD574, 0xC8FC, 0xC138, 0xC694, 0x002E]"

definition MSG_DETAIL_SUFFIX :: jsstring where
  \<comment> \<open>line 370: the text after the issue path, "check the input value"\<close>
  "MSG_DETAIL_SUFFIX =
   [0x003A, 0x0020, 0xC785, 0xB825, 0x0020, 0xAC12, 0xC744, 0x0020, 0xD655, 0xC778, 0xD574,
    0xC8FC, 0xC138, 0xC694, 0x002E]"
section \<open>The platform\<close>

text \<open>
  The code calls built-ins of its runtime whose definitions are no part of the
  repository: the WHATWG URL parser behind \<open>new URL(s)\<close>, \<open>toLowerCase\<close>, the JSON
  parser and serializer, the string coercion of a template literal, the comparison
  \<open><\<close> on a value that is not a string length, and the regular expression engine on the
  patterns applied to a fetched HTML page. The model takes them as one parameter, so every
  theorem holds for every behaviour of the platform. A call that throws returns
  \<open>None\<close>.
\<close>

datatype jsnumber = Finite rat | PosInfinity | NegInfinity

text \<open>
  A value that \<open>JSON.parse\<close> or \<open>response.json()\<close> can return. A number is the value
  of the double (both zeros are \<open>Finite 0\<close>; a literal beyond the doubles' range parses to
  an infinity). An object is its property list in property order, keys distinct.
  JavaScript's \<open>undefined\<close> is \<open>None\<close> of \<open>json option\<close>.
\<close>

datatype json =
    JNull
  | JBool bool
  | JNumber jsnumber
  | JString jsstring
  | JArray "json list"
  | JObject "(jsstring \<times> json) list"

record parsed_url =
  protocol :: jsstring
  hostname :: jsstring

datatype html_pattern =
    TitleTag          \<comment> \<open>line 438: \<open>/<title[^>]*>([^<]+)<\/title>/i\<close>\<close>
  | MetaDescription   \<comment> \<open>line 442: the \<open>meta name="description"\<close> pattern, group 1 the content\<close>
  | JsonLdScript      \<comment> \<open>line 446: the \<open>application/ld+json\<close> script pattern (flags gi)\<close>
  | MainTag           \<comment> \<open>line 459: \<open>/<main[^>]*>([\s\S]*?)<\/main>/i\<close>\<close>
  | ArticleTag        \<comment> \<open>line 460: \<open>/<article[^>]*>([\s\S]*?)<\/article>/i\<close>\<close>
  | ContentDiv        \<comment> \<open>line 461: a \<open>div\<close> whose class contains \<open>content\<close>\<close>
  | ScriptBlock       \<comment> \<open>line 464: \<open>/<script[^>]*>[\s\S]*?<\/script>/gi\<close>\<close>
  | StyleBlock        \<comment> \<open>line 465: \<open>/<style[^>]*>[\s\S]*?<\/style>/gi\<close>\<close>
  | AnyTag            \<comment> \<open>line 466: \<open>/<[^>]+>/g\<close>\<close>
  | WhiteSpaceRun     \<comment> \<open>line 467: \<open>/\s+/g\<close>\<close>

record platform =
  URL_parse :: "jsstring \<Rightarrow> parsed_url option"
    \<comment> \<open>\<open>new URL(s)\<close>; \<open>None\<close> when it throws\<close>
  toLowerCase :: "jsstring \<Rightarrow> jsstring"
  JSON_parse :: "jsstring \<Rightarrow> json option"
    \<comment> \<open>\<open>JSON.parse(s)\<close>; \<open>None\<close> when it throws\<close>
  JSON_stringify :: "json \<Rightarrow> jsstring"
  JSON_stringify_indent :: "json \<Rightarrow> jsstring"
    \<comment> \<open>\<open>JSON.stringify(v, null, 2)\<close>\<close>
  ToString :: "json \<Rightarrow> jsstring option"
    \<comment> \<open>a value that is not a string inside a template literal; \<open>None\<close> when it throws\<close>
  lessThan :: "json \<Rightarrow> nat \<Rightarrow> bool"
    \<comment> \<open>\<open>v < n\<close> for a value read from a property\<close>
  regexFirst :: "html_pattern \<Rightarrow> jsstring \<Rightarrow> jsstring option"
    \<comment> \<open>group 1 of the first match of \<open>s.match(p)\<close>\<close>
  regexAll :: "html_pattern \<Rightarrow> jsstring \<Rightarrow> jsstring list"
    \<comment> \<open>group 1 of every match of \<open>s.matchAll(p)\<close>\<close>
  regexReplace :: "html_pattern \<Rightarrow> jsstring \<Rightarrow> jsstring \<Rightarrow> jsstring"
    \<comment> \<open>\<open>s.replace(p, r)\<close>, the arguments in the order pattern, replacement, subject\<close>
  systemPrompt :: jsstring
    \<comment> \<open>the prompt literal of lines 538 to 630, which no property here reads\<close>

section \<open>The URL validator\<close>

definition ALLOWED_DOMAINS :: "jsstring list" where
  "ALLOWED_DOMAINS = map ascii
     [''linkedin.com'', ''indeed.com'', ''glassdoor.com'', ''jobkorea.co.kr'',
      ''saramin.co.kr'', ''wanted.co.kr'', ''rocketpunch.com'', ''jumpit.co.kr'',
      ''programmers.co.kr'', ''catch.co.kr'', ''incruit.com'', ''worknet.go.kr'',
      ''albamon.com'', ''alba.co.kr'', ''job.go.kr'', ''career.co.kr'', ''jobs.lever.co'',
      ''boards.greenhouse.io'', ''job-boards.greenhouse.io'', ''jobs.ashbyhq.com'',
      ''apply.workable.com'', ''jobs.smartrecruiters.com'', ''recruiting.paylocity.com'',
      ''monster.com'', ''ziprecruiter.com'', ''careerbuilder.com'', ''dice.com'',
      ''simplyhired.com'', ''flexjobs.com'', ''angel.co'', ''wellfound.com'',
      ''remoteok.com'', ''weworkremotely.com'', ''stackoverflow.jobs'', ''hired.com'',
      ''triplebyte.com'']"

record url_validation =
  valid :: bool
  error :: "jsstring option"
  url :: "jsstring option"

definition rejected :: "jsstring \<Rightarrow> url_validation" where
  \<comment> \<open>\<open>{ valid: false, error: msg }\<close>\<close>
  "rejected msg = \<lparr>valid = False, error = Some msg, url = None\<rparr>"

definition formatUrl :: "jsstring \<Rightarrow> jsstring" where
  \<comment> \<open>lines 231 to 233: \<open>formattedUrl\<close>\<close>
  "formatUrl urlString =
     (if startsWith (trim urlString) (ascii ''http'') then trim urlString
      else ascii ''https://'' @ trim urlString)"

definition isLoopbackName :: "jsstring \<Rightarrow> bool" where
  \<comment> \<open>line 245\<close>
  "isLoopbackName h \<longleftrightarrow>
     h \<in> set (map ascii [''localhost'', ''127.0.0.1'', ''0.0.0.0'', ''::1''])"

definition isDigitBetween :: "char \<Rightarrow> char \<Rightarrow> nat \<Rightarrow> bool" where
  "isDigitBetween lo hi c \<longleftrightarrow> of_char lo \<le> c \<and> c \<le> of_char hi"

fun matches172 :: "jsstring \<Rightarrow> bool" where
  \<comment> \<open>line 252: \<open>/^172\.(1[6-9]|2[0-9]|3[0-1])\./i\<close>\<close>
  "matches172 (a # b # c # d # x # y # z # rest) \<longleftrightarrow>
     [a, b, c, d] = ascii ''172.'' \<and> z = of_char CHR ''.'' \<and>
     (x = of_char CHR ''1'' \<and> isDigitBetween CHR ''6'' CHR ''9'' y \<or>
      x = of_char CHR ''2'' \<and> isDigitBetween CHR ''0'' CHR ''9'' y \<or>
      x = of_char CHR ''3'' \<and> isDigitBetween CHR ''0'' CHR ''1'' y)"
| "matches172 _ \<longleftrightarrow> False"

definition isHexDigit :: "nat \<Rightarrow> bool" where
  \<comment> \<open>\<open>[0-9a-f]\<close> under the flag \<open>i\<close>\<close>
  "isHexDigit c \<longleftrightarrow>
     isDigitBetween CHR ''0'' CHR ''9'' c \<or> isDigitBetween CHR ''a'' CHR ''f'' c \<or>
     isDigitBetween CHR ''A'' CHR ''F'' c"

definition startsWithCI :: "jsstring \<Rightarrow> string \<Rightarrow> string \<Rightarrow> bool" where
  \<comment> \<open>a prefix of ASCII letters under the flag \<open>i\<close>: each position matches the lower or
      the upper case spelling\<close>
  "startsWithCI s lower upper \<longleftrightarrow>
     length lower \<le> length s \<and>
     list_all (\<lambda>(c, l, u). c = of_char l \<or> c = of_char u) (zip s (zip lower upper))"

fun matchesFd :: "jsstring \<Rightarrow> bool" where
  \<comment> \<open>line 257: \<open>/^fd[0-9a-f]{2}:/i\<close>\<close>
  "matchesFd (a # b # x # y # z # rest) \<longleftrightarrow>
     startsWithCI [a, b] ''fd'' ''FD'' \<and> isHexDigit x \<and> isHexDigit y \<and> z = of_char CHR '':''"
| "matchesFd _ \<longleftrightarrow> False"

definition isPrivateAddress :: "jsstring \<Rightarrow> bool" where
  \<comment> \<open>lines 250 to 258\<close>
  "isPrivateAddress h \<longleftrightarrow>
     startsWith h (ascii ''10.'') \<or>
     matches172 h \<or>
     startsWith h (ascii ''192.168.'') \<or>
     startsWith h (ascii ''169.254.'') \<or>
     startsWithCI h ''fe80:'' ''FE80:'' \<or>
     startsWithCI h ''fc00:'' ''FC00:'' \<or>
     matchesFd h"

definition isAllowed :: "jsstring \<Rightarrow> bool" where
  \<comment> \<open>lines 263 to 265\<close>
  "isAllowed h \<longleftrightarrow>
     list_ex (\<lambda>allowed. h = allowed \<or> endsWith h (ascii ''.'' @ allowed)) ALLOWED_DOMAINS"

definition validateUrl :: "platform \<Rightarrow> jsstring \<Rightarrow> url_validation" where
  "validateUrl P urlString =
     (case URL_parse P (formatUrl urlString) of
        None \<Rightarrow> rejected MSG_MALFORMED_URL
      | Some parsed \<Rightarrow>
          if protocol parsed \<notin> set (map ascii [''https:'', ''http:''])
          then rejected MSG_UNSUPPORTED_PROTOCOL
          else if isLoopbackName (toLowerCase P (hostname parsed))
          then rejected MSG_INVALID_URL
          else if isPrivateAddress (toLowerCase P (hostname parsed))
          then rejected MSG_INVALID_URL
          else if \<not> isAllowed (toLowerCase P (hostname parsed))
          then rejected MSG_UNSUPPORTED_SITE
          else if length (formatUrl urlString) > 2000
          then rejected MSG_URL_TOO_LONG
          else \<lparr>valid = True, error = None, url = Some (formatUrl urlString)\<rparr>)"

section \<open>Reading JSON values the way JavaScript does\<close>

datatype thrown =
    RuntimeTypeError
      \<comment> \<open>a \<open>TypeError\<close> the engine raises for the code itself (a property of \<open>null\<close>, a
          call of something that is no function); its message is the engine's English text\<close>
  | JsError jsstring
      \<comment> \<open>any other instance of \<open>Error\<close>, with its message\<close>
  | NonError
      \<comment> \<open>a thrown value that is no instance of \<open>Error\<close>\<close>

fun truthy :: "json \<Rightarrow> bool" where
  "truthy JNull = False"
| "truthy (JBool b) = b"
| "truthy (JNumber n) = (n \<noteq> Finite 0)"
| "truthy (JString s) = (s \<noteq> [])"
| "truthy (JArray xs) = True"
| "truthy (JObject kvs) = True"

definition truthyU :: "json option \<Rightarrow> bool" where
  "truthyU v = (case v of None \<Rightarrow> False | Some x \<Rightarrow> truthy x)"

fun chain :: "json option \<Rightarrow> jsstring \<Rightarrow> json option" where
  \<comment> \<open>\<open>v?.k\<close> for a name \<open>k\<close> that no built-in prototype defines (every name read here):
      an own property of an object, \<open>undefined\<close> otherwise\<close>
  "chain (Some (JObject kvs)) k = map_of kvs k"
| "chain _ k = None"

definition member :: "json \<Rightarrow> jsstring \<Rightarrow> thrown + json option" where
  \<comment> \<open>\<open>v.k\<close>: as \<open>v?.k\<close>, but reading a property of \<open>null\<close> throws\<close>
  "member v k = (if v = JNull then Inl RuntimeTypeError else Inr (chain (Some v) k))"

fun chain0 :: "json option \<Rightarrow> json option" where
  \<comment> \<open>\<open>v?.[0]\<close>\<close>
  "chain0 (Some (JArray xs)) = (case xs of [] \<Rightarrow> None | x # _ \<Rightarrow> Some x)"
| "chain0 (Some (JString s)) = (case s of [] \<Rightarrow> None | c # _ \<Rightarrow> Some (JString [c]))"
| "chain0 (Some (JObject kvs)) = map_of kvs (ascii ''0'')"
| "chain0 _ = None"

definition nullish :: "json option \<Rightarrow> bool" where
  \<comment> \<open>\<open>undefined\<close> or \<open>null\<close>: where \<open>??\<close> takes its right operand\<close>
  "nullish v \<longleftrightarrow> v = None \<or> v = Some JNull"

section \<open>The Gemini adapter\<close>

text \<open>
  The adapter is \<open>_shared/gemini.ts\<close>, the file \<open>src/unnamed/part_004\<close>; the line
  numbers of this section are lines of that file. It turns a chat-style request into the
  provider's request and the provider's response into a chat-style response.
\<close>

subsection \<open>The request and response shapes\<close>

datatype OpenAIContentPart = TextPart jsstring | ImageUrlPart jsstring

datatype OpenAIContent = StringContent jsstring | PartsContent "OpenAIContentPart list"

datatype OpenAIRole = RoleSystem | RoleUser | RoleAssistant

record OpenAIMessage =
  role :: OpenAIRole
  content :: OpenAIContent

record OpenAIFunction =
  name :: jsstring
  description :: "jsstring option"
  parameters :: "json option"

record OpenAITool =
  tool_type :: jsstring
  tool_function :: OpenAIFunction

record OpenAIToolChoice =
  choice_type :: jsstring
  choice_function_name :: jsstring

record LovableChatPayload =
  model :: "jsstring option"
  messages :: "OpenAIMessage list"
  tools :: "OpenAITool list option"
  tool_choice :: "OpenAIToolChoice option"

datatype GeminiPart = GeminiText jsstring | InlineData jsstring jsstring
  \<comment> \<open>\<open>{ text }\<close>, or \<open>{ inlineData: { mimeType, data } }\<close>\<close>

datatype GeminiRole = GeminiUser | GeminiModel

record GeminiContent =
  gemini_role :: GeminiRole
  parts :: "GeminiPart list"

record FunctionDeclaration =
  declared_name :: jsstring
  declared_description :: "jsstring option"
  declared_parameters :: "json option"

datatype CallingMode = ANY | AUTO | NONE

record FunctionCallingConfig =
  mode :: CallingMode
  allowedFunctionNames :: "jsstring list option"

record GeminiRequest =
  contents :: "GeminiContent list"
  systemInstruction :: "jsstring option"
    \<comment> \<open>\<open>{ role: 'system', parts: [{ text }] }\<close>, given by its text\<close>
  functionDeclarations :: "FunctionDeclaration list option"
    \<comment> \<open>\<open>tools: [{ functionDeclarations }]\<close>\<close>
  toolConfig :: "FunctionCallingConfig option"
    \<comment> \<open>\<open>{ functionCallingConfig: { mode, allowedFunctionNames } }\<close>\<close>

record ToolCall =
  arguments :: "jsstring option"
    \<comment> \<open>\<open>{ function: { arguments } }\<close>\<close>

record LovableMessage =
  message_content :: "jsstring option"
  tool_calls :: "ToolCall list option"

record LovableLikeResponse =
  choices :: "LovableMessage list"
    \<comment> \<open>each choice is \<open>{ message }\<close>\<close>

subsection \<open>Building the request\<close>

definition normalizeModel :: "jsstring option \<Rightarrow> jsstring option \<Rightarrow> jsstring" where
  \<comment> \<open>the first argument is \<open>Deno.env.get('GEMINI_MODEL')\<close>\<close>
  "normalizeModel envModel m =
     (if (case envModel of None \<Rightarrow> False | Some e \<Rightarrow> e \<noteq> [] \<and> trim e \<noteq> [])
      then trim (the envModel)
      else case m of
        None \<Rightarrow> ascii ''gemini-3-flash-preview''
      | Some s \<Rightarrow>
          if s = [] then ascii ''gemini-3-flash-preview''
          else rev (takeWhile (\<lambda>c. c \<noteq> of_char CHR ''/'') (rev s)))"

definition textsOf :: "OpenAIContentPart list \<Rightarrow> jsstring list" where
  \<comment> \<open>\<open>.filter((part) => part.type === 'text').map((part) => part.text)\<close>\<close>
  "textsOf ps = concat (map (\<lambda>p. case p of TextPart t \<Rightarrow> [t] | ImageUrlPart _ \<Rightarrow> []) ps)"

fun joinWith :: "jsstring \<Rightarrow> jsstring list \<Rightarrow> jsstring" where
  "joinWith sep [] = []"
| "joinWith sep [x] = x"
| "joinWith sep (x # y # ys) = x @ sep @ joinWith sep (y # ys)"

definition extractSystemText :: "OpenAIMessage list \<Rightarrow> jsstring option" where
  "extractSystemText ms =
     (case find (\<lambda>m. role m = RoleSystem) ms of
        None \<Rightarrow> None
      | Some systemMessage \<Rightarrow>
          (case content systemMessage of
             StringContent s \<Rightarrow> Some s
           | PartsContent ps \<Rightarrow> Some (joinWith [0x0A] (textsOf ps))))"

definition isLineTerminator :: "nat \<Rightarrow> bool" where
  \<comment> \<open>what \<open>.\<close> of a regular expression does not match\<close>
  "isLineTerminator c \<longleftrightarrow> c \<in> {0x0A, 0x0D, 0x2028, 0x2029}"

definition convertImageUrlToPart :: "jsstring \<Rightarrow> GeminiPart" where
  \<comment> \<open>line 76 of the adapter: \<open>/^data:([^;]+);base64,(.+)$/\<close>. Group 1 is the longest
      run without \<open>;\<close> after \<open>data:\<close>, group 2 the rest after \<open>;base64,\<close>, which holds no
      line terminator.\<close>
  "convertImageUrlToPart u =
     (let rest = drop 5 u;
          mimeType = takeWhile (\<lambda>c. c \<noteq> of_char CHR '';'') rest;
          after = dropWhile (\<lambda>c. c \<noteq> of_char CHR '';'') rest;
          payload = drop 8 after
      in if startsWith u (ascii ''data:'') \<and> mimeType \<noteq> [] \<and>
            startsWith after (ascii '';base64,'') \<and> payload \<noteq> [] \<and>
            \<not> list_ex isLineTerminator payload
         then InlineData mimeType payload
         else GeminiText (ascii ''Image URL: '' @ u))"

definition convertMessageContent :: "OpenAIContent \<Rightarrow> GeminiPart list" where
  "convertMessageContent c =
     (case c of
        StringContent s \<Rightarrow> [GeminiText s]
      | PartsContent ps \<Rightarrow>
          map (\<lambda>p. case p of TextPart t \<Rightarrow> GeminiText t
                            | ImageUrlPart u \<Rightarrow> convertImageUrlToPart u) ps)"

definition droppedKey :: "jsstring \<Rightarrow> bool" where
  \<comment> \<open>the two keys the loop skips; and \<open>cleaned['__proto__'] = v\<close> sets the prototype of
      \<open>cleaned\<close> and adds no property\<close>
  "droppedKey k \<longleftrightarrow>
     k = ascii ''additionalProperties'' \<or> k = ascii ''nullable'' \<or> k = ascii ''__proto__''"

fun sanitizeSchema :: "json \<Rightarrow> json" where
  "sanitizeSchema (JArray xs) = JArray (map sanitizeSchema xs)"
| "sanitizeSchema (JObject kvs) =
     JObject (map (\<lambda>kv. (fst kv, sanitizeSchema (snd kv)))
                  (filter (\<lambda>kv. \<not> droppedKey (fst kv)) kvs))"
| "sanitizeSchema v = v"

definition toGeminiContent :: "OpenAIMessage \<Rightarrow> GeminiContent" where
  "toGeminiContent m =
     \<lparr>gemini_role = (if role m = RoleAssistant then GeminiModel else GeminiUser),
      parts = convertMessageContent (content m)\<rparr>"

definition toDeclaration :: "OpenAITool \<Rightarrow> FunctionDeclaration" where
  "toDeclaration t =
     \<lparr>declared_name = name (tool_function t),
      declared_description = description (tool_function t),
      declared_parameters = map_option sanitizeSchema (parameters (tool_function t))\<rparr>"

definition declarationsOf :: "OpenAITool list option \<Rightarrow> FunctionDeclaration list option" where
  \<comment> \<open>lines 139 to 151\<close>
  "declarationsOf ts =
     (case ts of
        None \<Rightarrow> None
      | Some xs \<Rightarrow>
          (let ds = map toDeclaration (filter (\<lambda>t. tool_type t = ascii ''function'') xs)
           in if ds = [] then None else Some ds))"

definition configOf :: "OpenAIToolChoice option \<Rightarrow> FunctionCallingConfig option" where
  \<comment> \<open>lines 153 to 160\<close>
  "configOf tc =
     (case tc of
        None \<Rightarrow> None
      | Some c \<Rightarrow>
          if choice_type c = ascii ''function'' \<and> choice_function_name c \<noteq> []
          then Some \<lparr>mode = ANY, allowedFunctionNames = Some [choice_function_name c]\<rparr>
          else None)"

definition buildGeminiRequest ::
  "jsstring option \<Rightarrow> LovableChatPayload \<Rightarrow> jsstring \<times> GeminiRequest" where
  \<comment> \<open>the first argument is \<open>Deno.env.get('GEMINI_MODEL')\<close>; the result is \<open>{ model, request }\<close>\<close>
  "buildGeminiRequest envModel payload =
     (normalizeModel envModel (model payload),
      \<lparr>contents = map toGeminiContent (filter (\<lambda>m. role m \<noteq> RoleSystem) (messages payload)),
       systemInstruction =
         (case extractSystemText (messages payload) of
            None \<Rightarrow> None
          | Some t \<Rightarrow> if t = [] then None else Some t),
       functionDeclarations = declarationsOf (tools payload),
       toolConfig = configOf (tool_choice payload)\<rparr>)"

subsection \<open>Normalizing the response\<close>

definition partsOf :: "json \<Rightarrow> thrown + json list" where
  \<comment> \<open>lines 182 and 183; \<open>parts.filter\<close> throws on a value that is no array\<close>
  "partsOf aiData =
     (let ps = chain (chain (chain0 (chain (Some aiData) (ascii ''candidates'')))
                 (ascii ''content'')) (ascii ''parts'')
      in if nullish ps then Inr []
         else case ps of Some (JArray xs) \<Rightarrow> Inr xs | _ \<Rightarrow> Inl RuntimeTypeError)"

definition textOf :: "json \<Rightarrow> jsstring" where
  \<comment> \<open>what one part adds to \<open>textParts\<close>: its \<open>text\<close> when that is a string\<close>
  "textOf p = (case chain (Some p) (ascii ''text'') of Some (JString t) \<Rightarrow> t | _ \<Rightarrow> [])"

definition textPartsOf :: "json list \<Rightarrow> jsstring" where
  \<comment> \<open>lines 184 to 187\<close>
  "textPartsOf ps = concat (map textOf ps)"

definition functionPartOf :: "json list \<Rightarrow> json option" where
  \<comment> \<open>line 188: \<open>parts.find((part) => part?.functionCall)\<close>\<close>
  "functionPartOf ps = find (\<lambda>p. truthyU (chain (Some p) (ascii ''functionCall''))) ps"

definition callArgs :: "json \<Rightarrow> json option" where
  \<comment> \<open>line 192, for the function-call part: \<open>functionCall.args ?? functionCall.arguments\<close>\<close>
  "callArgs functionPart =
     (let functionCall = chain (Some functionPart) (ascii ''functionCall'')
      in if nullish (chain functionCall (ascii ''args''))
         then chain functionCall (ascii ''arguments'')
         else chain functionCall (ascii ''args''))"

definition argumentsJson :: "platform \<Rightarrow> json option \<Rightarrow> jsstring" where
  \<comment> \<open>line 193: \<open>typeof args === 'string' ? args : JSON.stringify(args ?? {})\<close>\<close>
  "argumentsJson P args =
     (case args of
        Some (JString s) \<Rightarrow> s
      | _ \<Rightarrow> JSON_stringify P (if nullish args then JObject [] else the args))"

definition parsedJson :: "platform \<Rightarrow> json \<Rightarrow> jsstring" where
  \<comment> \<open>line 199: \<open>typeof parsed === 'string' ? parsed : JSON.stringify(parsed)\<close>\<close>
  "parsedJson P parsed = (case parsed of JString s \<Rightarrow> s | _ \<Rightarrow> JSON_stringify P parsed)"

definition toolCallsOf :: "platform \<Rightarrow> json list \<Rightarrow> ToolCall list option" where
  \<comment> \<open>lines 190 to 204\<close>
  "toolCallsOf P ps =
     (case functionPartOf ps of
        Some functionPart \<Rightarrow> Some [\<lparr>arguments = Some (argumentsJson P (callArgs functionPart))\<rparr>]
      | None \<Rightarrow>
          if textPartsOf ps \<noteq> [] then
            (case JSON_parse P (trim (textPartsOf ps)) of
               Some parsed \<Rightarrow> Some [\<lparr>arguments = Some (parsedJson P parsed)\<rparr>]
             | None \<Rightarrow> None)
          else None)"

definition normalizeGeminiToLovable ::
  "platform \<Rightarrow> json \<Rightarrow> thrown + LovableLikeResponse option" where
  "normalizeGeminiToLovable P aiData =
     (case partsOf aiData of
        Inl e \<Rightarrow> Inl e
      | Inr ps \<Rightarrow>
          if textPartsOf ps = [] \<and> toolCallsOf P ps = None then Inr None
          else Inr (Some \<lparr>choices =
                 [\<lparr>message_content = Some (textPartsOf ps), tool_calls = toolCallsOf P ps\<rparr>]\<rparr>))"

section \<open>The analyze-job handler\<close>

text \<open>
  The handler is the \<open>serve\<close> callback of the analyze-job function, lines 285 to 771 of
  \<open>src/supabase/functions/parse-resume/index.ts\<close>; the line numbers of this section and
  of the section on the validator are lines of that file.
\<close>

subsection \<open>Responses\<close>

record reply =
  success :: bool
  reply_error :: "jsstring option"
    \<comment> \<open>the property \<open>error\<close> of the body\<close>
  details :: "jsstring list option"
  unsupportedSite :: bool
  noContent :: bool
    \<comment> \<open>a flag is \<open>True\<close> when the body has it (the code only ever writes \<open>true\<close>)\<close>
  data :: "(json \<times> jsstring) option"
    \<comment> \<open>\<open>{ ...jobData, sourceUrl: url }\<close>, given by \<open>jobData\<close> and \<open>url\<close>\<close>

record response =
  status :: nat
  body :: "reply option"
    \<comment> \<open>\<open>None\<close> for \<open>new Response(null, ...)\<close>\<close>

definition failure :: "nat \<Rightarrow> jsstring \<Rightarrow> response" where
  \<comment> \<open>\<open>new Response(JSON.stringify({ success: false, error: msg }), { status: code, ... })\<close>\<close>
  "failure code msg =
     \<lparr>status = code,
      body = Some \<lparr>success = False, reply_error = Some msg, details = None,
                   unsupportedSite = False, noContent = False, data = None\<rparr>\<rparr>"

subsection \<open>The world of one invocation\<close>

text \<open>
  The handler reads and writes the table \<open>user_subscriptions\<close> and calls three services.
  The world holds the table (the row of each user, by \<open>user_id\<close>, with the two columns
  the handler reads) and the log of the outbound calls made so far. The column
  \<open>updated_at\<close>, which the update of line 340 sets to the time of the call and nothing
  reads, is left out.
\<close>

record subscription =
  ai_credits_remaining :: int
  ai_credits_used :: "int option"
    \<comment> \<open>\<open>None\<close> for a null column, which line 344 allows for\<close>

type_synonym database = "jsstring \<Rightarrow> subscription option"

record scrape_request =
  scrape_url :: jsstring
  formats :: "jsstring list"
  onlyMainContent :: bool

datatype call =
    DirectFetch jsstring
      \<comment> \<open>line 424: \<open>fetch(formattedUrl, ...)\<close>\<close>
  | FirecrawlScrape jsstring scrape_request
      \<comment> \<open>line 484: the API key of the \<open>Authorization\<close> header and the body\<close>
  | GeminiGenerate jsstring jsstring GeminiRequest
      \<comment> \<open>the adapter's \<open>fetch\<close>: the model and the key of the URL, and the body\<close>

record world =
  db :: database
  calls :: "call list"

text \<open>
  What the outside gives one invocation: the request, the environment variables, and the
  outcome of each awaited call (\<open>Inl\<close> when the promise rejects). The three HTTP services
  are called at most once each, so one outcome each is enough.
\<close>

datatype fault =
    Rejects thrown      \<comment> \<open>the awaited query throws\<close>
  | ReturnsError        \<comment> \<open>the query returns \<open>{ error }\<close>\<close>

record direct_response =
  direct_ok :: bool
  direct_text :: "thrown + jsstring"

record scrape_response =
  scrape_ok :: bool
  scrape_json :: "thrown + json"

record ai_response =
  ai_ok :: bool
  ai_status :: nat
  ai_text :: "thrown + jsstring"
  ai_json :: "thrown + json"

record request_env =
  req_method :: jsstring
  authorization :: "jsstring option"
    \<comment> \<open>\<open>req.headers.get('Authorization')\<close>\<close>
  getUser :: "thrown + jsstring option"
    \<comment> \<open>lines 300 to 306: the user's id; \<open>Inr None\<close> for \<open>authError || !user\<close>\<close>
  selectFault :: "fault option"
  updateFault :: "fault option"
    \<comment> \<open>a failure of the query of line 318 and of line 340; \<open>None\<close> when it runs\<close>
  req_json :: "thrown + json"
    \<comment> \<open>\<open>await req.json()\<close>\<close>
  FIRECRAWL_API_KEY :: "jsstring option"
  GEMINI_API_KEY :: "jsstring option"
  GEMINI_MODEL :: "jsstring option"
  directResponse :: "thrown + direct_response"
  scrapeResponse :: "thrown + scrape_response"
  aiResponse :: "thrown + ai_response"

subsection \<open>The database client\<close>

text \<open>
  The two queries of the handler, each one atomic statement of the database.
  \<open>.single()\<close> gives the row when there is exactly one and an error otherwise. An update
  through supabase-js reports the number of rows it changed only when the query names a
  count algorithm (\<open>update(values, { count: 'exact' })\<close>): the client then asks for the
  count in the \<open>Prefer\<close> header and reads it from the \<open>Content-Range\<close> of the answer;
  without one \<open>count\<close> is \<open>null\<close>. The client library is not part of the repository,
  so this is its documented behaviour. The count algorithm is an argument here, and the
  handler passes none.
\<close>

definition selectSingle :: "fault option \<Rightarrow> database \<Rightarrow> jsstring \<Rightarrow> thrown + subscription option" where
  \<comment> \<open>\<open>Inr None\<close>: \<open>error\<close> is set or \<open>data\<close> is null\<close>
  "selectSingle f d uid =
     (case f of
        Some (Rejects e) \<Rightarrow> Inl e
      | Some ReturnsError \<Rightarrow> Inr None
      | None \<Rightarrow> Inr (d uid))"

datatype count_algorithm = Exact | Planned | Estimated

record update_result =
  update_error :: bool
  count :: "nat option"

definition updateWhere ::
  "fault option \<Rightarrow> count_algorithm option \<Rightarrow> jsstring \<Rightarrow> int \<Rightarrow> subscription \<Rightarrow> database \<Rightarrow>
   database \<times> (thrown + update_result)" where
  \<comment> \<open>\<open>.update(values, { count }).eq('user_id', uid).eq('ai_credits_remaining', seen)\<close>\<close>
  "updateWhere f algorithm uid seen values d =
     (case f of
        Some (Rejects e) \<Rightarrow> (d, Inl e)
      | Some ReturnsError \<Rightarrow> (d, Inr \<lparr>update_error = True, count = None\<rparr>)
      | None \<Rightarrow>
          if (case d uid of None \<Rightarrow> False | Some row \<Rightarrow> ai_credits_remaining row = seen)
          then (d(uid := Some values),
                Inr \<lparr>update_error = False, count = map_option (\<lambda>_. 1) algorithm\<rparr>)
          else (d, Inr \<lparr>update_error = False, count = map_option (\<lambda>_. 0) algorithm\<rparr>))"

subsection \<open>The steps of the handler\<close>

text \<open>
  A step of the handler returns a response, throws, or goes on with a value. The state
  it leaves is kept in either case: a credit deducted before an exception stays deducted.
\<close>

datatype 'a step = Return response | Throw thrown | Continue 'a

definition andThen ::
  "world \<times> 'a step \<Rightarrow> ('a \<Rightarrow> world \<Rightarrow> world \<times> 'b step) \<Rightarrow> world \<times> 'b step" where
  "andThen r f =
     (case snd r of
        Continue a \<Rightarrow> f a (fst r)
      | Return x \<Rightarrow> (fst r, Return x)
      | Throw e \<Rightarrow> (fst r, Throw e))"

definition authenticate :: "request_env \<Rightarrow> jsstring step" where
  \<comment> \<open>lines 291 to 313\<close>
  "authenticate env =
     (case authorization env of
        None \<Rightarrow> Return (failure 401 MSG_LOGIN_REQUIRED)
      | Some authHeader \<Rightarrow>
          if authHeader = [] then Return (failure 401 MSG_LOGIN_REQUIRED)
          else case getUser env of
            Inl e \<Rightarrow> Throw e
          | Inr None \<Rightarrow> Return (failure 401 MSG_AUTH_EXPIRED)
          | Inr (Some uid) \<Rightarrow> Continue uid)"

definition readCredits :: "request_env \<Rightarrow> database \<Rightarrow> jsstring \<Rightarrow> subscription step" where
  \<comment> \<open>lines 317 to 337\<close>
  "readCredits env d uid =
     (case selectSingle (selectFault env) d uid of
        Inl e \<Rightarrow> Throw e
      | Inr None \<Rightarrow> Return (failure 404 MSG_NO_SUBSCRIPTION)
      | Inr (Some subscription) \<Rightarrow>
          if ai_credits_remaining subscription < 1 then Return (failure 402 MSG_NO_CREDITS)
          else Continue subscription)"

definition deducted :: "subscription \<Rightarrow> subscription" where
  \<comment> \<open>lines 343 and 344: the values of the update\<close>
  "deducted subscription =
     \<lparr>ai_credits_remaining = ai_credits_remaining subscription - 1,
      ai_credits_used =
        Some ((case ai_credits_used subscription of None \<Rightarrow> 0 | Some n \<Rightarrow> n) + 1)\<rparr>"

definition deductCredit ::
  "request_env \<Rightarrow> jsstring \<Rightarrow> subscription \<Rightarrow> world \<Rightarrow> world \<times> unit step" where
  \<comment> \<open>lines 339 to 356\<close>
  "deductCredit env uid subscription w =
     (case updateWhere (updateFault env) None uid (ai_credits_remaining subscription)
             (deducted subscription) (db w) of
        (d, Inl e) \<Rightarrow> (w\<lparr>db := d\<rparr>, Throw e)
      | (d, Inr r) \<Rightarrow>
          if update_error r \<or> count r = Some 0
          then (w\<lparr>db := d\<rparr>, Return (failure 409 MSG_CREDIT_CONFLICT))
          else (w\<lparr>db := d\<rparr>, Continue ()))"

definition safeParse :: "json \<Rightarrow> jsstring list + jsstring" where
  \<comment> \<open>\<open>requestSchema.safeParse\<close> for the schema of lines 178 to 180: the \<open>url\<close>, or the
      issues, each given by its path joined with a dot\<close>
  "safeParse rawBody =
     (case rawBody of
        JObject kvs \<Rightarrow>
          (case map_of kvs (ascii ''url'') of
             Some (JString u) \<Rightarrow>
               if 1 \<le> length u \<and> length u \<le> 2000 then Inr u else Inl [ascii ''url'']
           | _ \<Rightarrow> Inl [ascii ''url''])
      | _ \<Rightarrow> Inl [[]])"

definition parseInput :: "platform \<Rightarrow> request_env \<Rightarrow> (jsstring \<times> jsstring) step" where
  \<comment> \<open>lines 360 to 388: \<open>url\<close> and \<open>formattedUrl\<close>. A valid result always has its \<open>url\<close>
      (lemma \<open>validateUrl_valid_url\<close>), so the branch that throws is never taken.\<close>
  "parseInput P env =
     (case req_json env of
        Inl e \<Rightarrow> Throw e
      | Inr rawBody \<Rightarrow>
          (case safeParse rawBody of
             Inl issues \<Rightarrow>
               Return \<lparr>status = 400,
                 body = Some \<lparr>success = False, reply_error = Some MSG_BAD_REQUEST,
                   details = Some (map (\<lambda>path. path @ MSG_DETAIL_SUFFIX) issues),
                   unsupportedSite = False, noContent = False, data = None\<rparr>\<rparr>
           | Inr u \<Rightarrow>
               if \<not> valid (validateUrl P u)
               then Return \<lparr>status = 400,
                 body = Some \<lparr>success = False, reply_error = error (validateUrl P u),
                   details = None, unsupportedSite = False, noContent = False, data = None\<rparr>\<rparr>
               else (case url (validateUrl P u) of
                       Some formattedUrl \<Rightarrow> Continue (u, formattedUrl)
                     | None \<Rightarrow> Throw RuntimeTypeError)))"

definition checkConfig :: "request_env \<Rightarrow> (jsstring \<times> jsstring) step" where
  \<comment> \<open>lines 390 to 407: the two API keys\<close>
  "checkConfig env =
     (if FIRECRAWL_API_KEY env = None \<or> FIRECRAWL_API_KEY env = Some []
      then Return (failure 500 MSG_NO_FIRECRAWL_KEY)
      else if GEMINI_API_KEY env = None \<or> GEMINI_API_KEY env = Some []
      then Return (failure 500 MSG_NO_GEMINI_KEY)
      else Continue (the (FIRECRAWL_API_KEY env), the (GEMINI_API_KEY env)))"

definition extractPage :: "platform \<Rightarrow> jsstring \<Rightarrow> jsstring \<times> jsstring" where
  \<comment> \<open>lines 437 to 471: \<open>pageContent\<close> and \<open>pageTitle\<close> from the fetched HTML\<close>
  "extractPage P html =
     (let pageTitle = (case regexFirst P TitleTag html of Some t \<Rightarrow> trim t | None \<Rightarrow> []);
          description =
            (case regexFirst P MetaDescription html of Some t \<Rightarrow> trim t | None \<Rightarrow> []);
          jsonLdContent =
            concat (map (\<lambda>m. case JSON_parse P m of
                                Some parsed \<Rightarrow> JSON_stringify_indent P parsed @ [0x0A, 0x0A]
                              | None \<Rightarrow> [])
                        (regexAll P JsonLdScript html));
          mainMatch =
            (case regexFirst P MainTag html of
               Some m \<Rightarrow> Some m
             | None \<Rightarrow>
                 (case regexFirst P ArticleTag html of
                    Some m \<Rightarrow> Some m
                  | None \<Rightarrow> regexFirst P ContentDiv html));
          bodyContent =
            (case mainMatch of
               Some m \<Rightarrow>
                 trim (regexReplace P WhiteSpaceRun (ascii '' '')
                        (regexReplace P AnyTag (ascii '' '')
                          (regexReplace P StyleBlock []
                            (regexReplace P ScriptBlock [] m))))
             | None \<Rightarrow> [])
      in (ascii ''Title: '' @ pageTitle @ [0x0A, 0x0A] @
          ascii ''Description: '' @ description @ [0x0A, 0x0A] @
          (if jsonLdContent \<noteq> [] then ascii ''Structured Data:'' @ [0x0A] @ jsonLdContent
           else []) @
          [0x0A, 0x0A] @ ascii ''Content:'' @ [0x0A] @ bodyContent,
          pageTitle))"

definition isLinkedIn :: "jsstring \<Rightarrow> bool" where
  \<comment> \<open>line 415\<close>
  "isLinkedIn formattedUrl = str_includes formattedUrl (ascii ''linkedin.com'')"

definition directFetch ::
  "platform \<Rightarrow> request_env \<Rightarrow> jsstring \<Rightarrow> world \<Rightarrow> world \<times> jsstring \<times> jsstring" where
  \<comment> \<open>lines 411 to 479: the world after, \<open>pageContent\<close> and \<open>pageTitle\<close>. Whatever the
      fetch throws is caught at line 476.\<close>
  "directFetch P env formattedUrl w =
     (if isLinkedIn formattedUrl
      then (w\<lparr>calls := calls w @ [DirectFetch formattedUrl]\<rparr>,
            case directResponse env of
              Inl e \<Rightarrow> ([], [])
            | Inr r \<Rightarrow>
                if direct_ok r
                then (case direct_text r of Inl e \<Rightarrow> ([], []) | Inr html \<Rightarrow> extractPage P html)
                else ([], []))
      else (w, [], []))"

definition notSupportedPhrase :: jsstring where
  "notSupportedPhrase = ascii ''not currently supported''"

definition isUnsupported :: "json \<Rightarrow> thrown + bool" where
  \<comment> \<open>line 503: \<open>scrapeData.error?.includes('not currently supported')\<close>; a string and an
      array have \<open>includes\<close>, a call on another value throws\<close>
  "isUnsupported scrapeData =
     (case member scrapeData (ascii ''error'') of
        Inl e \<Rightarrow> Inl e
      | Inr v \<Rightarrow>
          if nullish v then Inr False
          else (case v of
                  Some (JString s) \<Rightarrow> Inr (str_includes s notSupportedPhrase)
                | Some (JArray xs) \<Rightarrow> Inr (JString notSupportedPhrase \<in> set xs)
                | _ \<Rightarrow> Inl RuntimeTypeError))"

definition scrapeFailed :: "scrape_response \<Rightarrow> json \<Rightarrow> thrown + bool" where
  \<comment> \<open>line 499: \<open>!scrapeResponse.ok || !scrapeData.success\<close>\<close>
  "scrapeFailed r scrapeData =
     (if \<not> scrape_ok r then Inr True
      else case member scrapeData (ascii ''success'') of
             Inl e \<Rightarrow> Inl e
           | Inr v \<Rightarrow> Inr (\<not> truthyU v))"

definition orElse :: "json option \<Rightarrow> json \<Rightarrow> json" where
  \<comment> \<open>\<open>v || d\<close>\<close>
  "orElse v d = (if truthyU v then the v else d)"

definition unsupportedSiteResponse :: response where
  \<comment> \<open>lines 505 to 512\<close>
  "unsupportedSiteResponse =
     \<lparr>status = 400,
      body = Some \<lparr>success = False, reply_error = Some MSG_UNSUPPORTED_BY_SCRAPER,
                   details = None, unsupportedSite = True, noContent = False, data = None\<rparr>\<rparr>"

definition firecrawlCall :: "jsstring \<Rightarrow> jsstring \<Rightarrow> call" where
  \<comment> \<open>lines 484 to 495\<close>
  "firecrawlCall firecrawlApiKey formattedUrl =
     FirecrawlScrape firecrawlApiKey
       \<lparr>scrape_url = formattedUrl, formats = [ascii ''markdown''], onlyMainContent = True\<rparr>"

definition scrape ::
  "request_env \<Rightarrow> jsstring \<Rightarrow> jsstring \<Rightarrow> jsstring \<times> jsstring \<Rightarrow> world \<Rightarrow>
   world \<times> (json \<times> json) step" where
  \<comment> \<open>lines 481 to 523: \<open>pageContent\<close> and \<open>pageTitle\<close> after the second tier; from here on
      they hold whatever values the scraping service sent\<close>
  "scrape env firecrawlApiKey formattedUrl page w =
     (if fst page = [] \<or> length (fst page) < 100
      then
        (case scrapeResponse env of
           Inl e \<Rightarrow> (w\<lparr>calls := calls w @ [firecrawlCall firecrawlApiKey formattedUrl]\<rparr>, Throw e)
         | Inr r \<Rightarrow>
             (w\<lparr>calls := calls w @ [firecrawlCall firecrawlApiKey formattedUrl]\<rparr>,
              case scrape_json r of
                Inl e \<Rightarrow> Throw e
              | Inr scrapeData \<Rightarrow>
                  (case scrapeFailed r scrapeData of
                     Inl e \<Rightarrow> Throw e
                   | Inr True \<Rightarrow>
                       (case isUnsupported scrapeData of
                          Inl e \<Rightarrow> Throw e
                        | Inr True \<Rightarrow> Return unsupportedSiteResponse
                        | Inr False \<Rightarrow> Return (failure 400 MSG_SCRAPE_FAILED))
                   | Inr False \<Rightarrow>
                       (case member scrapeData (ascii ''data'') of
                          Inl e \<Rightarrow> Throw e
                        | Inr d \<Rightarrow>
                            Continue
                              (orElse (chain d (ascii ''markdown'')) (JString []),
                               orElse (chain (chain d (ascii ''metadata'')) (ascii ''title''))
                                 (JString (snd page)))))))
      else (w, Continue (JString (fst page), JString (snd page))))"

definition contentTooShort :: "platform \<Rightarrow> json \<Rightarrow> bool" where
  \<comment> \<open>line 527: \<open>!pageContent || pageContent.length < 50\<close>; \<open>length\<close> of a string or an
      array, an own property of an object, \<open>undefined\<close> (and the comparison false) on a
      number or a boolean\<close>
  "contentTooShort P pageContent \<longleftrightarrow>
     \<not> truthy pageContent \<or>
     (case pageContent of
        JString s \<Rightarrow> length s < 50
      | JArray xs \<Rightarrow> length xs < 50
      | JObject kvs \<Rightarrow>
          (case map_of kvs (ascii ''length'') of None \<Rightarrow> False | Some v \<Rightarrow> lessThan P v 50)
      | _ \<Rightarrow> False)"

definition extractJobPostingSchema :: json where
  \<comment> \<open>lines 644 to 679: \<open>parameters\<close> of the tool\<close>
  "extractJobPostingSchema =
   JObject
    [(ascii ''type'', JString (ascii ''object'')),
     (ascii ''properties'', JObject
       [(ascii ''isJobPosting'', JObject [(ascii ''type'', JString (ascii ''boolean''))]),
        (ascii ''language'', JObject [(ascii ''type'', JString (ascii ''string'')), (ascii ''enum'', JArray [JString (ascii ''ko''), JString (ascii ''en'')])]),
        (ascii ''companyName'', JObject [(ascii ''type'', JString (ascii ''string''))]),
        (ascii ''title'', JObject [(ascii ''type'', JString (ascii ''string''))]),
        (ascii ''position'', JObject [(ascii ''type'', JString (ascii ''string''))]),
        (ascii ''minExperience'', JObject [(ascii ''type'', JString (ascii ''string'')), (ascii ''nullable'', JBool True)]),
        (ascii ''minExperienceEvidence'', JObject [(ascii ''type'', JString (ascii ''string''))]),
        (ascii ''workType'', JObject [(ascii ''type'', JString (ascii ''string'')), (ascii ''nullable'', JBool True)]),
        (ascii ''workTypeEvidence'', JObject [(ascii ''type'', JString (ascii ''string''))]),
        (ascii ''location'', JObject [(ascii ''type'', JString (ascii ''string'')), (ascii ''nullable'', JBool True)]),
        (ascii ''locationEvidence'', JObject [(ascii ''type'', JString (ascii ''string''))]),
        (ascii ''visaSponsorship'', JObject [(ascii ''type'', JString (ascii ''boolean'')), (ascii ''nullable'', JBool True)]),
        (ascii ''visaSponsorshipEvidence'', JObject [(ascii ''type'', JString (ascii ''string''))]),
        (ascii ''summary'', JObject [(ascii ''type'', JString (ascii ''string''))]),
        (ascii ''keyCompetencies'', JObject
          [(ascii ''type'', JString (ascii ''array'')),
           (ascii ''items'', JObject
             [(ascii ''type'', JString (ascii ''object'')),
              (ascii ''properties'', JObject [(ascii ''title'', JObject [(ascii ''type'', JString (ascii ''string''))]), (ascii ''description'', JObject [(ascii ''type'', JString (ascii ''string''))])]),
              (ascii ''required'', JArray [JString (ascii ''title''), JString (ascii ''description'')])]),
           (ascii ''minItems'', JNumber (Finite 5)),
           (ascii ''maxItems'', JNumber (Finite 5))]),
        (ascii ''companyScore'', JObject [(ascii ''type'', JString (ascii ''number''))]),
        (ascii ''fitScore'', JObject [(ascii ''type'', JString (ascii ''number''))])]),
     (ascii ''required'', JArray
       [JString (ascii ''isJobPosting''),
        JString (ascii ''language''),
        JString (ascii ''companyName''),
        JString (ascii ''title''),
        JString (ascii ''position''),
        JString (ascii ''summary''),
        JString (ascii ''keyCompetencies'')]),
     (ascii ''additionalProperties'', JBool False)]"

definition extractJobPostingTool :: OpenAITool where
  \<comment> \<open>lines 639 to 681\<close>
  "extractJobPostingTool =
     \<lparr>tool_type = ascii ''function'',
      tool_function =
        \<lparr>name = ascii ''extract_job_posting'',
         description =
           Some (ascii ''Extract structured job posting information with evidence''),
         parameters = Some extractJobPostingSchema\<rparr>\<rparr>"

definition extractionPayload :: "platform \<Rightarrow> jsstring \<Rightarrow> jsstring \<Rightarrow> LovableChatPayload" where
  \<comment> \<open>lines 632 to 684, for the text of \<open>pageTitle\<close> and the head of \<open>pageContent\<close>\<close>
  "extractionPayload P pageTitle pageContentHead =
     \<lparr>model = Some (ascii ''google/gemini-2.5-flash''),
      messages =
        [\<lparr>role = RoleSystem, content = StringContent (systemPrompt P)\<rparr>,
         \<lparr>role = RoleUser,
          content = StringContent
            (ascii ''Page title: '' @ pageTitle @ [0x0A, 0x0A] @
             ascii ''Job posting content:'' @ [0x0A] @ pageContentHead)\<rparr>],
      tools = Some [extractJobPostingTool],
      tool_choice =
        Some \<lparr>choice_type = ascii ''function'',
              choice_function_name = ascii ''extract_job_posting''\<rparr>\<rparr>"

definition inTemplate :: "platform \<Rightarrow> json \<Rightarrow> jsstring option" where
  \<comment> \<open>\<open>`${v}`\<close>\<close>
  "inTemplate P v = (case v of JString s \<Rightarrow> Some s | _ \<Rightarrow> ToString P v)"

definition geminiCall :: "request_env \<Rightarrow> jsstring \<Rightarrow> LovableChatPayload \<Rightarrow> call" where
  \<comment> \<open>\<open>callGeminiFromLovable(payload, apiKey)\<close>: the request it sends\<close>
  "geminiCall env apiKey payload =
     GeminiGenerate (fst (buildGeminiRequest (GEMINI_MODEL env) payload)) apiKey
       (snd (buildGeminiRequest (GEMINI_MODEL env) payload))"

definition aiFailure :: "nat \<Rightarrow> response" where
  \<comment> \<open>lines 690 to 706\<close>
  "aiFailure code =
     (if code = 429 then failure 429 MSG_RATE_LIMITED
      else if code = 402 then failure 402 MSG_AI_CREDITS_NEEDED
      else failure 500 MSG_AI_FAILED)"

definition askGemini ::
  "platform \<Rightarrow> request_env \<Rightarrow> jsstring \<Rightarrow> json \<times> json \<Rightarrow> world \<Rightarrow> world \<times> json step" where
  \<comment> \<open>lines 632 to 709, for \<open>pageContent\<close> and \<open>pageTitle\<close>: \<open>aiDataRaw\<close>. The arguments of
      the call are evaluated first: \<open>pageContent.substring\<close> is a function only on a
      string.\<close>
  "askGemini P env geminiApiKey page w =
     (case inTemplate P (snd page) of
        None \<Rightarrow> (w, Throw RuntimeTypeError)
      | Some pageTitle \<Rightarrow>
          (case fst page of
             JString pageContent \<Rightarrow>
               (w\<lparr>calls := calls w @
                    [geminiCall env geminiApiKey
                       (extractionPayload P pageTitle (take 15000 pageContent))]\<rparr>,
                case aiResponse env of
                  Inl e \<Rightarrow> Throw e
                | Inr r \<Rightarrow>
                    if \<not> ai_ok r
                    then (case ai_text r of
                            Inl e \<Rightarrow> Throw e
                          | Inr errorText \<Rightarrow> Return (aiFailure (ai_status r)))
                    else (case ai_json r of
                            Inl e \<Rightarrow> Throw e
                          | Inr aiDataRaw \<Rightarrow> Continue aiDataRaw))
           | _ \<Rightarrow> (w, Throw RuntimeTypeError)))"

definition firstToolCall :: "LovableLikeResponse option \<Rightarrow> ToolCall option" where
  \<comment> \<open>line 715: \<open>aiData?.choices?.[0]?.message?.tool_calls?.[0]\<close>\<close>
  "firstToolCall aiData =
     (case aiData of
        None \<Rightarrow> None
      | Some r \<Rightarrow>
          (case choices r of
             [] \<Rightarrow> None
           | m # _ \<Rightarrow>
               (case tool_calls m of
                  None \<Rightarrow> None
                | Some [] \<Rightarrow> None
                | Some (toolCall # _) \<Rightarrow> Some toolCall)))"

definition parseJobData :: "platform \<Rightarrow> ToolCall option \<Rightarrow> json option" where
  \<comment> \<open>lines 714 to 723: \<open>jobData\<close>, \<open>None\<close> while it is still \<open>null\<close>\<close>
  "parseJobData P toolCall =
     (case toolCall of
        None \<Rightarrow> None
      | Some t \<Rightarrow>
          (case arguments t of
             None \<Rightarrow> None
           | Some a \<Rightarrow> if a = [] then None else JSON_parse P a))"

definition noContentResponse :: response where
  \<comment> \<open>lines 728 to 735\<close>
  "noContentResponse =
     \<lparr>status = 400,
      body = Some \<lparr>success = False, reply_error = Some MSG_NO_CONTENT, details = None,
                   unsupportedSite = False, noContent = True, data = None\<rparr>\<rparr>"

definition jobPosting :: "json \<Rightarrow> jsstring \<Rightarrow> response" where
  \<comment> \<open>lines 750 to 759\<close>
  "jobPosting jobData u =
     \<lparr>status = 200,
      body = Some \<lparr>success = True, reply_error = None, details = None,
                   unsupportedSite = False, noContent = False, data = Some (jobData, u)\<rparr>\<rparr>"

definition answer :: "platform \<Rightarrow> jsstring \<Rightarrow> LovableLikeResponse option \<Rightarrow> response" where
  \<comment> \<open>lines 713 to 759, for \<open>url\<close> and \<open>aiData\<close>\<close>
  "answer P u aiData =
     (if \<not> truthyU (parseJobData P (firstToolCall aiData)) then noContentResponse
      else if chain (parseJobData P (firstToolCall aiData)) (ascii ''isJobPosting'')
                = Some (JBool False)
      then failure 400 MSG_NOT_A_POSTING
      else jobPosting (the (parseJobData P (firstToolCall aiData))) u)"

definition respondWith :: "platform \<Rightarrow> jsstring \<Rightarrow> json \<Rightarrow> response step" where
  \<comment> \<open>lines 710 to 759\<close>
  "respondWith P u aiDataRaw =
     (case normalizeGeminiToLovable P aiDataRaw of
        Inl e \<Rightarrow> Throw e
      | Inr aiData \<Rightarrow> Return (answer P u aiData))"

subsection \<open>The handler\<close>

definition bothTiers ::
  "platform \<Rightarrow> request_env \<Rightarrow> jsstring \<Rightarrow> jsstring \<Rightarrow> world \<Rightarrow> world \<times> (json \<times> json) step" where
  \<comment> \<open>lines 409 to 523: the direct fetch, then the scrape when the content is short\<close>
  "bothTiers P env firecrawlApiKey formattedUrl w =
     scrape env firecrawlApiKey formattedUrl
       (snd (directFetch P env formattedUrl w)) (fst (directFetch P env formattedUrl w))"

definition fetchContent ::
  "platform \<Rightarrow> request_env \<Rightarrow> jsstring \<Rightarrow> jsstring \<Rightarrow> world \<Rightarrow> world \<times> (json \<times> json) step" where
  \<comment> \<open>lines 409 to 535, the content fetcher: both tiers and the check of the length\<close>
  "fetchContent P env firecrawlApiKey formattedUrl w =
     andThen (bothTiers P env firecrawlApiKey formattedUrl w)
       (\<lambda>page w1.
          if contentTooShort P (fst page) then (w1, Return (failure 400 MSG_CONTENT_TOO_SHORT))
          else (w1, Continue page))"

definition runExtraction ::
  "platform \<Rightarrow> request_env \<Rightarrow> jsstring \<Rightarrow> jsstring \<Rightarrow> json \<times> json \<Rightarrow> world \<Rightarrow>
   world \<times> response step" where
  \<comment> \<open>lines 537 to 759: the call of the model and the answer\<close>
  "runExtraction P env geminiApiKey u page w =
     andThen (askGemini P env geminiApiKey page w) (\<lambda>aiDataRaw w1. (w1, respondWith P u aiDataRaw))"

definition enter ::
  "platform \<Rightarrow> request_env \<Rightarrow> jsstring \<times> subscription \<Rightarrow> world \<Rightarrow>
   world \<times> ((jsstring \<times> jsstring) \<times> (jsstring \<times> jsstring)) step" where
  \<comment> \<open>lines 339 to 407, for the user and the row as read: the conditional update, then
      the input and the keys. It goes on with \<open>url\<close>, \<open>formattedUrl\<close> and the two keys.\<close>
  "enter P env seen w =
     andThen (deductCredit env (fst seen) (snd seen) w) (\<lambda>_ w1.
       andThen (w1, parseInput P env) (\<lambda>input w2.
         andThen (w2, checkConfig env) (\<lambda>keys w3. (w3, Continue (input, keys)))))"

definition admit :: "request_env \<Rightarrow> world \<Rightarrow> (jsstring \<times> subscription) step" where
  \<comment> \<open>lines 291 to 337: the user and the subscription row as read; nothing is written\<close>
  "admit env w =
     (case authenticate env of
        Return r \<Rightarrow> Return r
      | Throw e \<Rightarrow> Throw e
      | Continue uid \<Rightarrow>
          (case readCredits env (db w) uid of
             Return r \<Rightarrow> Return r
           | Throw e \<Rightarrow> Throw e
           | Continue subscription \<Rightarrow> Continue (uid, subscription)))"

definition gate ::
  "platform \<Rightarrow> request_env \<Rightarrow> world \<Rightarrow>
   world \<times> ((jsstring \<times> jsstring) \<times> (jsstring \<times> jsstring)) step" where
  \<comment> \<open>lines 291 to 407: everything before the first outbound call\<close>
  "gate P env w = andThen (w, admit env w) (enter P env)"

definition pipeline ::
  "platform \<Rightarrow> request_env \<Rightarrow> (jsstring \<times> jsstring) \<times> (jsstring \<times> jsstring) \<Rightarrow> world \<Rightarrow>
   world \<times> response step" where
  \<comment> \<open>lines 409 to 759, for \<open>url\<close>, \<open>formattedUrl\<close> and the two keys\<close>
  "pipeline P env a w =
     andThen (fetchContent P env (fst (snd a)) (snd (fst a)) w) (\<lambda>page w1.
       runExtraction P env (snd (snd a)) (fst (fst a)) page w1)"

definition handle :: "platform \<Rightarrow> request_env \<Rightarrow> world \<Rightarrow> world \<times> response step" where
  \<comment> \<open>the body of the \<open>try\<close>, lines 291 to 759\<close>
  "handle P env w = andThen (gate P env w) (pipeline P env)"

definition safeMessage :: "thrown \<Rightarrow> jsstring" where
  \<comment> \<open>lines 763 to 765. The engine's own message of a \<open>TypeError\<close> is English text with the
      name of a property or the source of an expression, so it holds no Hangul.\<close>
  "safeMessage e =
     (case e of
        JsError m \<Rightarrow> if hasHangul m then m else fallbackMessage
      | _ \<Rightarrow> fallbackMessage)"

definition caught :: "world \<times> response step \<Rightarrow> world \<times> response" where
  \<comment> \<open>the \<open>try\<close> with its \<open>catch\<close>, lines 761 to 770\<close>
  "caught r =
     (case snd r of
        Return x \<Rightarrow> (fst r, x)
      | Continue x \<Rightarrow> (fst r, x)
      | Throw e \<Rightarrow> (fst r, failure 500 (safeMessage e)))"

definition preflight :: response where
  \<comment> \<open>line 287\<close>
  "preflight = \<lparr>status = 200, body = None\<rparr>"

definition serve :: "platform \<Rightarrow> request_env \<Rightarrow> world \<Rightarrow> world \<times> response" where
  \<comment> \<open>lines 285 to 771: the world after the invocation and its response\<close>
  "serve P env w =
     (if req_method env = ascii ''OPTIONS'' then (w, preflight) else caught (handle P env w))"

subsection \<open>Two invocations that read before either writes\<close>

text \<open>
  The only state two invocations share is the table, and each touches it in two
  statements: the read of line 318 and the conditional update of line 340. The schedule
  in which both invocations read before either of them updates is written out here:
  both are admitted on the first world, then the first one proceeds, then the second one
  proceeds on the world the first one left.
\<close>

definition raced ::
  "platform \<Rightarrow> request_env \<Rightarrow> request_env \<Rightarrow> world \<Rightarrow> world \<times> response \<times> response" where
  "raced P envA envB w =
     (let a = caught (andThen (andThen (w, admit envA w) (enter P envA)) (pipeline P envA));
          b = caught (andThen (andThen (fst a, admit envB w) (enter P envB)) (pipeline P envB))
      in (fst b, snd a, snd b))"

section \<open>Example inputs\<close>

text \<open>
  The examples below run the model on concrete requests. \<open>examplePlatform\<close> answers as
  the runtime does on the inputs the examples reach. Its URL parser knows four URLs (each
  \<open>https://\<close>, a lower-case host name, a path); every other string an example hands to
  it has no scheme, and the parser throws on it. \<open>toLowerCase\<close> is applied to host names
  that are lower case already. \<open>JSON.parse\<close> knows two texts; every other text the
  examples parse is no JSON text. \<open>JSON.stringify\<close> is applied to the two values of
  these texts. The regular expressions of the direct fetch are applied to the page
  \<open><html></html>\<close> only, where none of them matches. No example
  reaches the other answers.
\<close>

definition exampleUrls :: "(jsstring \<times> parsed_url) list" where
  "exampleUrls =
     [(ascii ''https://wanted.co.kr/wd/12345'',
       \<lparr>protocol = ascii ''https:'', hostname = ascii ''wanted.co.kr''\<rparr>),
      (ascii ''https://www.linkedin.com/jobs/view/1'',
       \<lparr>protocol = ascii ''https:'', hostname = ascii ''www.linkedin.com''\<rparr>),
      (ascii ''https://evil-linkedin.com.attacker.net/jobs'',
       \<lparr>protocol = ascii ''https:'', hostname = ascii ''evil-linkedin.com.attacker.net''\<rparr>),
      (ascii ''https://notlinkedin.com/jobs'',
       \<lparr>protocol = ascii ''https:'', hostname = ascii ''notlinkedin.com''\<rparr>)]"

definition exampleJson :: "(jsstring \<times> json) list" where
  "exampleJson =
     [(ascii ''{}'', JObject []),
      (ascii ''{\"isJobPosting\":true}'', JObject [(ascii ''isJobPosting'', JBool True)])]"

definition examplePlatform :: platform where
  "examplePlatform =
     \<lparr>URL_parse = map_of exampleUrls,
      toLowerCase = (\<lambda>s. s),
      JSON_parse = map_of exampleJson,
      JSON_stringify =
        (\<lambda>v. case map_of (map (\<lambda>(s, x). (x, s)) exampleJson) v of
               Some s \<Rightarrow> s | None \<Rightarrow> ascii ''null''),
      JSON_stringify_indent = (\<lambda>v. ascii ''null''),
      ToString = (\<lambda>v. None),
      lessThan = (\<lambda>v n. False),
      regexFirst = (\<lambda>p s. None),
      regexAll = (\<lambda>p s. []),
      regexReplace = (\<lambda>p r s. s),
      systemPrompt = ascii ''You are a job posting analyzer.''\<rparr>"

definition exampleUser :: jsstring where
  "exampleUser = ascii ''user-1''"

definition worldWithCredits :: "int \<Rightarrow> world" where
  \<comment> \<open>one subscription row, of \<open>exampleUser\<close>, and no call made yet\<close>
  "worldWithCredits n =
     \<lparr>db = (\<lambda>uid. if uid = exampleUser
                   then Some \<lparr>ai_credits_remaining = n, ai_credits_used = Some 0\<rparr>
                   else None),
      calls = []\<rparr>"

definition exampleMarkdown :: jsstring where
  "exampleMarkdown =
     ascii ''# Backend Engineer at Wanted Lab. Requirements: five years of server development.''"

definition exampleScrapeData :: json where
  "exampleScrapeData =
     JObject
      [(ascii ''success'', JBool True),
       (ascii ''data'', JObject
         [(ascii ''markdown'', JString exampleMarkdown),
          (ascii ''metadata'', JObject [(ascii ''title'', JString (ascii ''Backend Engineer''))])])]"

definition providerResponse :: "json list \<Rightarrow> json" where
  \<comment> \<open>a provider response whose first candidate has the given parts\<close>
  "providerResponse ps =
     JObject
      [(ascii ''candidates'', JArray
         [JObject [(ascii ''content'', JObject [(ascii ''parts'', JArray ps)])]])]"

definition functionCallPart :: "json \<Rightarrow> json" where
  \<comment> \<open>a part with a call of \<open>extract_job_posting\<close> with the given \<open>args\<close>\<close>
  "functionCallPart args =
     JObject
      [(ascii ''functionCall'', JObject
         [(ascii ''name'', JString (ascii ''extract_job_posting'')), (ascii ''args'', args)])]"

definition exampleAiData :: json where
  "exampleAiData =
     providerResponse [functionCallPart (JObject [(ascii ''isJobPosting'', JBool True)])]"

definition exampleEnv :: "jsstring \<Rightarrow> request_env" where
  \<comment> \<open>a request of \<open>exampleUser\<close> for the given \<open>url\<close>, every service answering well\<close>
  "exampleEnv u =
     \<lparr>req_method = ascii ''POST'',
      authorization = Some (ascii ''Bearer token''),
      getUser = Inr (Some exampleUser),
      selectFault = None,
      updateFault = None,
      req_json = Inr (JObject [(ascii ''url'', JString u)]),
      FIRECRAWL_API_KEY = Some (ascii ''fc-key''),
      GEMINI_API_KEY = Some (ascii ''gm-key''),
      GEMINI_MODEL = None,
      directResponse = Inl (JsError (ascii ''network error'')),
      scrapeResponse = Inr \<lparr>scrape_ok = True, scrape_json = Inr exampleScrapeData\<rparr>,
      aiResponse =
        Inr \<lparr>ai_ok = True, ai_status = 200, ai_text = Inr [], ai_json = Inr exampleAiData\<rparr>\<rparr>"

definition unsupportedScrape :: scrape_response where
  \<comment> \<open>the scraping service refusing a site\<close>
  "unsupportedScrape =
     \<lparr>scrape_ok = False,
      scrape_json = Inr (JObject
        [(ascii ''success'', JBool False),
         (ascii ''error'', JString (ascii ''This website is not currently supported.''))])\<rparr>"

definition shortScrape :: scrape_response where
  \<comment> \<open>the scraping service returning a page of twelve characters\<close>
  "shortScrape =
     \<lparr>scrape_ok = True,
      scrape_json = Inr (JObject
        [(ascii ''success'', JBool True),
         (ascii ''data'', JObject [(ascii ''markdown'', JString (ascii ''Job closed.\<newline>''))])])\<rparr>"

definition wantedUrl :: jsstring where
  "wantedUrl = ascii ''wanted.co.kr/wd/12345''"

definition worldAfterGate :: "int \<Rightarrow> world" where
  \<comment> \<open>\<open>worldWithCredits n\<close> after one deduction\<close>
  "worldAfterGate n =
     (worldWithCredits n)\<lparr>db := (db (worldWithCredits n))
        (exampleUser := Some \<lparr>ai_credits_remaining = n - 1, ai_credits_used = Some 1\<rparr>)\<rparr>"

definition linkedinUrl :: jsstring where
  "linkedinUrl = ascii ''https://www.linkedin.com/jobs/view/1''"

definition emptyPage :: direct_response where
  \<comment> \<open>a page in which none of the patterns of lines 438 to 461 matches\<close>
  "emptyPage = \<lparr>direct_ok = True, direct_text = Inr (ascii ''<html></html>'')\<rparr>"

definition aiAnswers :: "json \<Rightarrow> ai_response" where
  \<comment> \<open>the provider answering 200 with the given body\<close>
  "aiAnswers v = \<lparr>ai_ok = True, ai_status = 200, ai_text = Inr [], ai_json = Inr v\<rparr>"


section \<open>The words of the specification\<close>

text \<open>
  The specification speaks of a host name that is an allowlisted domain or a subdomain
  of one, of the host name of an input, of an input that starts with a scheme, of a
  response that reports an error, and of calling the AI model. These definitions say what is meant; the theorems relate them to
  the code.
\<close>

definition onAllowlist :: "jsstring \<Rightarrow> bool" where
  \<comment> \<open>equal to an allowlisted domain, or ending with a dot and an allowlisted domain\<close>
  "onAllowlist h \<longleftrightarrow> (\<exists>d \<in> set ALLOWED_DOMAINS. h = d \<or> suffix (ascii ''.'' @ d) h)"

definition hostOf :: "platform \<Rightarrow> jsstring \<Rightarrow> jsstring option" where
  \<comment> \<open>the host name of an input: what the URL parser finds in the formatted input, in
      lower case; none when the input does not parse\<close>
  "hostOf P u =
     map_option (\<lambda>parsed. toLowerCase P (hostname parsed)) (URL_parse P (formatUrl u))"

definition isSchemeChar :: "nat \<Rightarrow> bool" where
  \<comment> \<open>a letter, a digit, \<open>+\<close>, \<open>-\<close> or \<open>.\<close>\<close>
  "isSchemeChar c \<longleftrightarrow>
     isDigitBetween CHR ''a'' CHR ''z'' c \<or> isDigitBetween CHR ''A'' CHR ''Z'' c \<or>
     isDigitBetween CHR ''0'' CHR ''9'' c \<or>
     c \<in> {of_char CHR ''+'', of_char CHR ''-'', of_char CHR ''.''}"

definition startsWithScheme :: "jsstring \<Rightarrow> bool" where
  \<comment> \<open>the input starts with a scheme: a letter, then letters, digits, \<open>+\<close>, \<open>-\<close> and
      \<open>.\<close>, then a colon\<close>
  "startsWithScheme s \<longleftrightarrow>
     (case s of
        [] \<Rightarrow> False
      | c # _ \<Rightarrow>
          (isDigitBetween CHR ''a'' CHR ''z'' c \<or> isDigitBetween CHR ''A'' CHR ''Z'' c) \<and>
          (case dropWhile isSchemeChar s of [] \<Rightarrow> False | d # _ \<Rightarrow> d = of_char CHR '':''))"

definition isFailure :: "response \<Rightarrow> bool" where
  \<comment> \<open>an error response: a status from 400 on and a body with \<open>success: false\<close>\<close>
  "isFailure r \<longleftrightarrow> 400 \<le> status r \<and> (case body r of None \<Rightarrow> False | Some b \<Rightarrow> \<not> success b)"

fun isGeminiCall :: "call \<Rightarrow> bool" where
  "isGeminiCall (GeminiGenerate m k q) = True"
| "isGeminiCall _ = False"

definition aiCalls :: "world \<Rightarrow> call list" where
  \<comment> \<open>the calls of the AI model made so far\<close>
  "aiCalls w = filter isGeminiCall (calls w)"

section \<open>Lemmas on the validator\<close>

lemma endsWith_suffix: "endsWith s x \<longleftrightarrow> suffix x s"
proof
  assume "endsWith s x"
  then have "s = take (length s - length x) s @ x"
    by (metis append_take_drop_id endsWith_def)
  then show "suffix x s"
    by (metis suffixI)
next
  assume "suffix x s"
  then obtain zs where "s = zs @ x" by (auto simp: suffix_def)
  then show "endsWith s x" by (simp add: endsWith_def)
qed

lemma isAllowed_onAllowlist: "isAllowed h \<longleftrightarrow> onAllowlist h"
  by (simp add: isAllowed_def onAllowlist_def list_ex_iff endsWith_suffix)

lemma rejected_simps [simp]:
  "valid (rejected m) = False" "error (rejected m) = Some m" "url (rejected m) = None"
  by (simp_all add: rejected_def)

lemma validator_messages_nonempty:
  "MSG_MALFORMED_URL \<noteq> []" "MSG_UNSUPPORTED_PROTOCOL \<noteq> []" "MSG_INVALID_URL \<noteq> []"
  "MSG_UNSUPPORTED_SITE \<noteq> []" "MSG_URL_TOO_LONG \<noteq> []"
  by (simp_all add: MSG_MALFORMED_URL_def MSG_UNSUPPORTED_PROTOCOL_def MSG_INVALID_URL_def
      MSG_UNSUPPORTED_SITE_def MSG_URL_TOO_LONG_def)

lemma validateUrl_invalid_error:
  "\<not> valid (validateUrl P u) \<Longrightarrow> \<exists>msg. error (validateUrl P u) = Some msg \<and> msg \<noteq> []"
  by (auto simp: validateUrl_def validator_messages_nonempty split: option.splits if_splits)

lemma validateUrl_valid_url:
  "valid (validateUrl P u) \<Longrightarrow> url (validateUrl P u) = Some (formatUrl u)"
  by (auto simp: validateUrl_def split: option.splits if_splits)

lemma validateUrl_valid_host:
  "valid (validateUrl P u) \<Longrightarrow> \<exists>h. hostOf P u = Some h \<and> isAllowed h"
  by (auto simp: validateUrl_def hostOf_def split: option.splits if_splits)

lemma validateUrl_unlisted:
  assumes "\<forall>h. hostOf P u = Some h \<longrightarrow> \<not> onAllowlist h"
  shows "\<not> valid (validateUrl P u)"
  using assms validateUrl_valid_host [of P u] by (auto simp: isAllowed_onAllowlist)

section \<open>Lemmas on the steps of the handler\<close>

lemma andThen_simps [simp]:
  "andThen (w, Continue a) f = f a w"
  "andThen (w, Return r) f = (w, Return r)"
  "andThen (w, Throw e) f = (w, Throw e)"
  by (simp_all add: andThen_def)

lemma andThen_cases:
  "andThen r f =
     (case snd r of Continue a \<Rightarrow> f a (fst r) | Return x \<Rightarrow> (fst r, Return x)
      | Throw e \<Rightarrow> (fst r, Throw e))"
  by (simp add: andThen_def)

lemma caught_simps [simp]:
  "caught (w, Return r) = (w, r)"
  "caught (w, Continue r) = (w, r)"
  "caught (w, Throw e) = (w, failure 500 (safeMessage e))"
  by (simp_all add: caught_def)

lemma failure_simps [simp]:
  "status (failure code msg) = code"
  "body (failure code msg) =
     Some \<lparr>success = False, reply_error = Some msg, details = None,
           unsupportedSite = False, noContent = False, data = None\<rparr>"
  by (simp_all add: failure_def)

lemma isFailure_failure [simp]: "isFailure (failure code msg) \<longleftrightarrow> 400 \<le> code"
  by (simp add: isFailure_def)

lemma authenticate_Return: "authenticate env = Return r \<Longrightarrow> isFailure r"
  by (auto simp: authenticate_def split: option.splits if_splits sum.splits)

lemma readCredits_Return: "readCredits env d uid = Return r \<Longrightarrow> isFailure r"
  by (auto simp: readCredits_def split: option.splits if_splits sum.splits)

lemma admit_Return: "admit env w = Return r \<Longrightarrow> isFailure r"
  by (auto simp: admit_def dest: authenticate_Return readCredits_Return split: step.splits)

lemma deductCredit_calls [simp]: "calls (fst (deductCredit env uid s w)) = calls w"
  by (simp add: deductCredit_def split: prod.splits sum.splits)

lemma deductCredit_Return: "snd (deductCredit env uid s w) = Return r \<Longrightarrow> isFailure r"
  by (auto simp: deductCredit_def split: prod.splits sum.splits if_splits)

lemma parseInput_Return: "parseInput P env = Return r \<Longrightarrow> isFailure r"
  by (auto simp: parseInput_def isFailure_def split: sum.splits if_splits option.splits)

lemma checkConfig_Return: "checkConfig env = Return r \<Longrightarrow> isFailure r"
  by (auto simp: checkConfig_def split: if_splits)

lemma enter_calls [simp]: "calls (fst (enter P env seen w)) = calls w"
proof -
  obtain w1 s where d: "deductCredit env (fst seen) (snd seen) w = (w1, s)"
    by (cases "deductCredit env (fst seen) (snd seen) w")
  have "calls w1 = calls w"
    using deductCredit_calls [of env "fst seen" "snd seen" w] d by simp
  then show ?thesis
    by (simp add: enter_def d andThen_cases split: step.splits)
qed

lemma enter_Return: "snd (enter P env seen w) = Return r \<Longrightarrow> isFailure r"
proof -
  assume a: "snd (enter P env seen w) = Return r"
  obtain w1 s where d: "deductCredit env (fst seen) (snd seen) w = (w1, s)"
    by (cases "deductCredit env (fst seen) (snd seen) w")
  show "isFailure r"
  proof (cases s)
    case (Return x)
    then show ?thesis
      using a d deductCredit_Return [of env "fst seen" "snd seen" w x]
      by (simp add: enter_def)
  next
    case (Throw e)
    then show ?thesis using a d by (simp add: enter_def)
  next
    case (Continue u)
    then show ?thesis
      using a d
      by (auto simp: enter_def andThen_cases dest: parseInput_Return checkConfig_Return
          split: step.splits)
  qed
qed

lemma gate_calls [simp]: "calls (fst (gate P env w)) = calls w"
  by (simp add: gate_def andThen_cases split: step.splits)

lemma gate_Return: "snd (gate P env w) = Return r \<Longrightarrow> isFailure r"
  by (auto simp: gate_def andThen_cases dest: admit_Return enter_Return split: step.splits)

lemma enter_stops_at_input:
  "(\<forall>a. parseInput P env \<noteq> Continue a) \<Longrightarrow> snd (enter P env seen w) \<noteq> Continue b"
proof -
  assume a: "\<forall>a. parseInput P env \<noteq> Continue a"
  obtain w1 s where d: "deductCredit env (fst seen) (snd seen) w = (w1, s)"
    by (cases "deductCredit env (fst seen) (snd seen) w")
  show ?thesis
    using a by (cases s; cases "parseInput P env") (simp_all add: enter_def d)
qed

lemma gate_stops_at_input:
  assumes "\<forall>a. parseInput P env \<noteq> Continue a"
  shows "snd (gate P env w) \<noteq> Continue b"
proof (cases "admit env w")
  case (Continue seen)
  then show ?thesis
    using enter_stops_at_input [OF assms, of seen w b] by (simp add: gate_def)
qed (simp_all add: gate_def)

lemma handle_stopped:
  assumes "\<forall>b. snd (gate P env w) \<noteq> Continue b"
  shows "handle P env w = (fst (gate P env w), case snd (gate P env w) of
           Return r \<Rightarrow> Return r | Throw e \<Rightarrow> Throw e | Continue b \<Rightarrow> Throw RuntimeTypeError)"
  using assms by (cases "snd (gate P env w)") (simp_all add: handle_def andThen_def)

lemma serve_stopped:
  assumes "\<forall>b. snd (gate P env w) \<noteq> Continue b" and "req_method env \<noteq> ascii ''OPTIONS''"
  shows "calls (fst (serve P env w)) = calls w \<and> isFailure (snd (serve P env w))"
proof (cases "snd (gate P env w)")
  case (Return r)
  then show ?thesis
    using assms gate_Return [of P env w r] gate_calls [of P env w]
    by (simp add: serve_def handle_stopped caught_def)
next
  case (Throw e)
  then show ?thesis
    using assms gate_calls [of P env w]
    by (simp add: serve_def handle_stopped caught_def)
next
  case (Continue b)
  then show ?thesis using assms by simp
qed

lemma gate_Continue:
  assumes "admit env w = Continue seen"
    and "snd (deductCredit env (fst seen) (snd seen) w) = Continue ()"
    and "parseInput P env = Continue input"
    and "checkConfig env = Continue keys"
  shows "snd (gate P env w) = Continue (input, keys)"
    and "fst (gate P env w) = fst (deductCredit env (fst seen) (snd seen) w)"
  using assms
  by (cases "deductCredit env (fst seen) (snd seen) w"; simp add: gate_def enter_def)+


lemma gate_Return_at_input:
  assumes "admit env w = Continue seen"
    and "snd (deductCredit env (fst seen) (snd seen) w) = Continue ()"
    and "parseInput P env = Return r"
  shows "snd (gate P env w) = Return r"
    and "fst (gate P env w) = fst (deductCredit env (fst seen) (snd seen) w)"
  using assms
  by (cases "deductCredit env (fst seen) (snd seen) w"; simp add: gate_def enter_def)+


lemma handle_gate_Return:
  "snd (gate P env w) = Return r \<Longrightarrow> handle P env w = (fst (gate P env w), Return r)"
  by (cases "gate P env w") (simp add: handle_def)

lemma handle_gate_Continue:
  "snd (gate P env w) = Continue a \<Longrightarrow> handle P env w = pipeline P env a (fst (gate P env w))"
  by (cases "gate P env w") (simp add: handle_def)

section \<open>What the steps do to the world\<close>

lemma directFetch_world:
  "fst (directFetch P env f w) =
     (if isLinkedIn f then w\<lparr>calls := calls w @ [DirectFetch f]\<rparr> else w)"
  by (simp add: directFetch_def)

lemma scrape_world:
  "fst (scrape env k f page w) =
     (if fst page = [] \<or> length (fst page) < 100
      then w\<lparr>calls := calls w @ [firecrawlCall k f]\<rparr> else w)"
  by (simp add: scrape_def split: sum.splits)

lemma bothTiers_world:
  "fst (bothTiers P env k f w) =
     (if fst (snd (directFetch P env f w)) = [] \<or> length (fst (snd (directFetch P env f w))) < 100
      then (fst (directFetch P env f w))
             \<lparr>calls := calls (fst (directFetch P env f w)) @ [firecrawlCall k f]\<rparr>
      else fst (directFetch P env f w))"
  by (simp add: bothTiers_def scrape_world)

lemma fetchContent_world: "fst (fetchContent P env k f w) = fst (bothTiers P env k f w)"
  by (cases "bothTiers P env k f w")
     (simp add: fetchContent_def andThen_cases split: step.splits)

lemma askGemini_world:
  "fst (askGemini P env k page w) =
     (case inTemplate P (snd page) of
        None \<Rightarrow> w
      | Some t \<Rightarrow>
          (case fst page of
             JString c \<Rightarrow>
               w\<lparr>calls := calls w @ [geminiCall env k (extractionPayload P t (take 15000 c))]\<rparr>
           | _ \<Rightarrow> w))"
  by (simp add: askGemini_def split: option.splits json.splits)

lemma runExtraction_world:
  "fst (runExtraction P env k u page w) = fst (askGemini P env k page w)"
  by (cases "askGemini P env k page w")
     (simp add: runExtraction_def andThen_cases split: step.splits)

lemma db_fetchContent [simp]: "db (fst (fetchContent P env k f w)) = db w"
  by (simp add: fetchContent_world bothTiers_world directFetch_world)

lemma aiCalls_fetchContent [simp]: "aiCalls (fst (fetchContent P env k f w)) = aiCalls w"
  by (simp add: fetchContent_world bothTiers_world directFetch_world aiCalls_def
      firecrawlCall_def)

lemma aiCalls_gate [simp]: "aiCalls (fst (gate P env w)) = aiCalls w"
  by (simp add: aiCalls_def)

lemma serve_pipeline:
  assumes "req_method env \<noteq> ascii ''OPTIONS''" and "gate P env w = (w1, Continue a)"
  shows "serve P env w = caught (pipeline P env a w1)"
  using assms by (simp add: serve_def handle_def)

lemma pipeline_stopped:
  assumes "fetchContent P env (fst (snd a)) (snd (fst a)) w = (w1, Return r)"
  shows "pipeline P env a w = (w1, Return r)"
  using assms by (simp add: pipeline_def)

lemma pipeline_fetched:
  assumes "fetchContent P env (fst (snd a)) (snd (fst a)) w = (w1, Continue page)"
  shows "pipeline P env a w = runExtraction P env (snd (snd a)) (fst (fst a)) page w1"
  using assms by (simp add: pipeline_def)

lemma gate_valid:
  assumes "gate P env w = (w1, Continue ((u, f), keys))"
  shows "valid (validateUrl P u) \<and> f = formatUrl u \<and> (\<exists>h. hostOf P u = Some h \<and> onAllowlist h)"
proof -
  have "parseInput P env = Continue (u, f)"
  proof (cases "admit env w")
    case (Continue seen)
    obtain w0 s where d: "deductCredit env (fst seen) (snd seen) w = (w0, s)"
      by (cases "deductCredit env (fst seen) (snd seen) w")
    show ?thesis
      using assms Continue d
      by (cases s; cases "parseInput P env"; cases "checkConfig env")
         (auto simp: gate_def enter_def)
  qed (use assms in \<open>simp_all add: gate_def\<close>)
  then have v: "valid (validateUrl P u)" and f: "url (validateUrl P u) = Some f"
    by (auto simp: parseInput_def split: sum.splits if_splits option.splits)
  show ?thesis
    using v f validateUrl_valid_url [OF v] validateUrl_valid_host [OF v]
    by (simp add: isAllowed_onAllowlist)
qed


lemma db_runExtraction [simp]: "db (fst (runExtraction P env k u page w)) = db w"
  by (simp add: runExtraction_world askGemini_world split: option.splits json.splits)

lemma db_pipeline [simp]: "db (fst (pipeline P env a w)) = db w"
proof (cases "fetchContent P env (fst (snd a)) (snd (fst a)) w")
  case (Pair w1 s)
  then have "db w1 = db w"
    using db_fetchContent [of P env "fst (snd a)" "snd (fst a)" w] by simp
  then show ?thesis
    using Pair by (cases s) (simp_all add: pipeline_def)
qed

lemma db_deductCredit:
  "db (fst (deductCredit env uid s w)) = fst (updateWhere (updateFault env) None uid
     (ai_credits_remaining s) (deducted s) (db w))"
  by (simp add: deductCredit_def split: prod.splits sum.splits)

lemma db_enter [simp]:
  "db (fst (enter P env seen w)) = db (fst (deductCredit env (fst seen) (snd seen) w))"
proof (cases "deductCredit env (fst seen) (snd seen) w")
  case (Pair w1 s)
  then show ?thesis
    by (cases s) (simp_all add: enter_def andThen_cases split: step.splits)
qed

lemma db_handle_admitted:
  assumes "admit env w = Continue seen"
  shows "db (fst (handle P env w)) = db (fst (deductCredit env (fst seen) (snd seen) w))"
proof (cases "enter P env seen w")
  case (Pair w1 s)
  then have "db w1 = db (fst (deductCredit env (fst seen) (snd seen) w))"
    using db_enter [of P env seen w] by simp
  then show ?thesis
    using Pair assms by (cases s) (simp_all add: handle_def gate_def)
qed

lemma fst_caught [simp]: "fst (caught r) = fst r"
  by (simp add: caught_def split: step.splits)

lemma runExtraction_calls: "\<exists>rest. calls (fst (runExtraction P env k u page w)) = calls w @ rest"
  by (simp add: runExtraction_world askGemini_world split: option.splits json.splits)

lemma pipeline_calls:
  "\<exists>rest. calls (fst (pipeline P env a w)) =
     calls (fst (fetchContent P env (fst (snd a)) (snd (fst a)) w)) @ rest"
proof (cases "fetchContent P env (fst (snd a)) (snd (fst a)) w")
  case (Pair w1 s)
  then show ?thesis
    using runExtraction_calls [of P env "snd (snd a)" "fst (fst a)" _ w1]
    by (cases s) (simp_all add: pipeline_def)
qed

lemma contentTooShort_string [simp]: "contentTooShort P (JString c) \<longleftrightarrow> length c < 50"
  by (auto simp: contentTooShort_def)

section \<open>Lemmas on the credit ledger\<close>

lemma deductCredit_goes_on:
  "updateFault env = None \<Longrightarrow> snd (deductCredit env uid s w) = Continue ()"
  by (simp add: deductCredit_def updateWhere_def)

lemma updateWhere_counted:
  assumes "d uid = Some row" and "ai_credits_remaining row \<noteq> seen"
  shows "snd (updateWhere None (Some Exact) uid seen values d) =
           Inr \<lparr>update_error = False, count = Some 0\<rparr>"
  using assms by (simp add: updateWhere_def)

lemma updateWhere_keeps_nonnegative:
  assumes "\<forall>uid row. d uid = Some row \<longrightarrow> 0 \<le> ai_credits_remaining row"
    and "0 \<le> ai_credits_remaining values"
  shows "\<forall>uid row. fst (updateWhere f algorithm u seen values d) uid = Some row \<longrightarrow>
           0 \<le> ai_credits_remaining row"
  using assms by (auto simp: updateWhere_def split: option.splits fault.splits)

lemma admit_seen:
  "admit env w = Continue seen \<Longrightarrow> 1 \<le> ai_credits_remaining (snd seen)"
  by (auto simp: admit_def readCredits_def split: step.splits sum.splits option.splits if_splits)

lemma credits_never_negative:
  assumes "\<forall>uid row. db w uid = Some row \<longrightarrow> 0 \<le> ai_credits_remaining row"
    and "admit env w0 = Continue seen"
  shows "\<forall>uid row.
           db (fst (caught (andThen (enter P env seen w) (pipeline P env)))) uid = Some row \<longrightarrow>
           0 \<le> ai_credits_remaining row"
proof -
  have "db (fst (andThen (enter P env seen w) (pipeline P env))) = db (fst (enter P env seen w))"
    by (cases "enter P env seen w") (simp add: andThen_cases split: step.splits)
  then have "db (fst (caught (andThen (enter P env seen w) (pipeline P env)))) =
      fst (updateWhere (updateFault env) None (fst seen) (ai_credits_remaining (snd seen))
             (deducted (snd seen)) (db w))"
    by (simp add: db_deductCredit)
  moreover have "0 \<le> ai_credits_remaining (deducted (snd seen))"
    using admit_seen [OF assms(2)] by (simp add: deducted_def)
  ultimately show ?thesis
    using updateWhere_keeps_nonnegative [OF assms(1)] by simp
qed

lemma enter_Continue:
  assumes "updateFault env = None" and "parseInput P env = Continue input"
    and "checkConfig env = Continue keys"
  shows "snd (enter P env seen w) = Continue (input, keys)"
  using assms deductCredit_goes_on [of env "fst seen" "snd seen" w]
  by (cases "deductCredit env (fst seen) (snd seen) w") (simp add: enter_def)

section \<open>The statuses the handler answers with\<close>

lemma enter_status:
  assumes "updateFault env = None" and "snd (enter P env seen w) = Return r"
  shows "status r \<in> {400, 500}"
proof -
  obtain w1 where d: "deductCredit env (fst seen) (snd seen) w = (w1, Continue ())"
    using deductCredit_goes_on [OF assms(1), of "fst seen" "snd seen" w]
    by (cases "deductCredit env (fst seen) (snd seen) w") simp
  show ?thesis
    using assms(2)
    by (auto simp: enter_def d andThen_cases parseInput_def checkConfig_def
        split: step.splits sum.splits if_splits option.splits)
qed

lemma fetchContent_status:
  "snd (fetchContent P env k f w) = Return r \<Longrightarrow> status r = 400"
  by (auto simp: fetchContent_def bothTiers_def scrape_def andThen_cases
      unsupportedSiteResponse_def
      split: step.splits sum.splits if_splits bool.splits)

lemma runExtraction_status:
  "snd (runExtraction P env k u page w) = Return r \<Longrightarrow> status r \<in> {200, 400, 402, 429, 500}"
  by (auto simp: runExtraction_def askGemini_def respondWith_def answer_def aiFailure_def
      noContentResponse_def jobPosting_def andThen_cases
      split: step.splits sum.splits if_splits option.splits json.splits)

lemma runExtraction_returns: "snd (runExtraction P env k u page w) \<noteq> Continue x"
  by (auto simp: runExtraction_def respondWith_def andThen_cases split: step.splits sum.splits)

lemma pipeline_returns: "snd (pipeline P env a w) \<noteq> Continue x"
proof (cases "fetchContent P env (fst (snd a)) (snd (fst a)) w")
  case (Pair w1 s)
  then show ?thesis
    using runExtraction_returns [of P env "snd (snd a)" "fst (fst a)" _ w1 x]
    by (cases s) (simp_all add: pipeline_def)
qed

lemma pipeline_status:
  assumes "snd (pipeline P env a w) = Return r"
  shows "status r \<in> {200, 400, 402, 429, 500}"
proof (cases "fetchContent P env (fst (snd a)) (snd (fst a)) w")
  case (Pair w1 s)
  show ?thesis
  proof (cases s)
    case (Return x)
    then show ?thesis
      using assms Pair fetchContent_status [of P env "fst (snd a)" "snd (fst a)" w x]
      by (simp add: pipeline_def)
  next
    case (Throw e)
    then show ?thesis using assms Pair by (simp add: pipeline_def)
  next
    case (Continue page)
    then show ?thesis
      using assms Pair runExtraction_status [of P env "snd (snd a)" "fst (fst a)" page w1 r]
      by (simp add: pipeline_def)
  qed
qed

lemma proceed_status:
  assumes "updateFault env = None"
  shows "status (snd (caught (andThen (enter P env seen w) (pipeline P env))))
           \<in> {200, 400, 402, 429, 500}"
proof (cases "enter P env seen w")
  case (Pair w1 s)
  show ?thesis
  proof (cases s)
    case (Return x)
    then show ?thesis
      using Pair enter_status [OF assms, of P seen w x] by auto
  next
    case (Throw e)
    then show ?thesis using Pair by simp
  next
    case (Continue a)
    show ?thesis
    proof (cases "pipeline P env a w1")
      case inner: (Pair w2 t)
      then show ?thesis
        using Pair Continue pipeline_status [of P env a w1] pipeline_returns [of P env a w1]
        by (cases t) auto
    qed
  qed
qed

lemma admit_row:
  assumes "admit env w = Continue (uid, s)"
  shows "db w uid = Some s \<and> 1 \<le> ai_credits_remaining s"
  using assms
  by (auto simp: admit_def readCredits_def selectSingle_def
      split: step.splits sum.splits option.splits if_splits fault.splits)

lemma db_proceed:
  "db (fst (andThen (enter P env seen w) (pipeline P env))) =
     db (fst (deductCredit env (fst seen) (snd seen) w))"
proof (cases "enter P env seen w")
  case (Pair w1 s)
  then have "db w1 = db (fst (deductCredit env (fst seen) (snd seen) w))"
    using db_enter [of P env seen w] by simp
  then show ?thesis
    using Pair by (cases s) simp_all
qed

section \<open>Lemmas on ASCII literals\<close>

lemma ascii_eq_iff [simp]: "ascii a = ascii b \<longleftrightarrow> a = b"
  by (simp add: ascii_def inj_map_eq_map [OF inj_of_char])

lemma ascii_Nil [simp]: "ascii [] = []"
  by (simp add: ascii_def)

lemma ascii_eq_Nil [simp]: "ascii a = [] \<longleftrightarrow> a = []" "[] = ascii a \<longleftrightarrow> a = []"
  by (auto simp: ascii_def)

lemma ascii_append: "ascii (a @ b) = ascii a @ ascii b"
  by (simp add: ascii_def)

lemma length_ascii [simp]: "length (ascii a) = length a"
  by (simp add: ascii_def)

section \<open>Lemmas on the example inputs\<close>

lemma partsOf_providerResponse [simp]: "partsOf (providerResponse ps) = Inr ps"
  by (simp add: partsOf_def providerResponse_def nullish_def)

lemma functionPartOf_call [simp]:
  "functionPartOf [functionCallPart args] = Some (functionCallPart args)"
  by (simp add: functionPartOf_def functionCallPart_def truthyU_def)

lemma callArgs_call:
  "\<not> nullish (Some args) \<Longrightarrow> callArgs (functionCallPart args) = Some args"
  by (simp add: callArgs_def functionCallPart_def)

lemma textPartsOf_call [simp]: "textPartsOf [functionCallPart args] = []"
  by (simp add: textPartsOf_def textOf_def functionCallPart_def)

lemma normalize_call:
  "\<not> nullish (Some args) \<Longrightarrow>
   normalizeGeminiToLovable P (providerResponse [functionCallPart args]) =
     Inr (Some \<lparr>choices = [\<lparr>message_content = Some [],
       tool_calls = Some [\<lparr>arguments = Some (argumentsJson P (Some args))\<rparr>]\<rparr>]\<rparr>)"
  by (simp add: normalizeGeminiToLovable_def toolCallsOf_def callArgs_call)

lemma example_JSON_parse:
  "JSON_parse examplePlatform (ascii ''{}'') = Some (JObject [])"
  "JSON_parse examplePlatform (ascii ''{\"isJobPosting\":true}'') =
     Some (JObject [(ascii ''isJobPosting'', JBool True)])"
  "JSON_parse examplePlatform (ascii ''hello'') = None"
  "JSON_parse examplePlatform (ascii ''Sorry, this page is empty.'') = None"
  by (simp_all add: examplePlatform_def exampleJson_def)

lemma example_JSON_stringify:
  "JSON_stringify examplePlatform (JObject []) = ascii ''{}''"
  "JSON_stringify examplePlatform (JObject [(ascii ''isJobPosting'', JBool True)]) =
     ascii ''{\"isJobPosting\":true}''"
  by (simp_all add: examplePlatform_def exampleJson_def)

lemma example_admit:
  assumes "authorization env = Some a" and "a \<noteq> []"
    and "getUser env = Inr (Some exampleUser)" and "selectFault env = None" and "1 \<le> n"
  shows "admit env (worldWithCredits n) =
     Continue (exampleUser, \<lparr>ai_credits_remaining = n, ai_credits_used = Some 0\<rparr>)"
  using assms
  by (simp add: admit_def authenticate_def readCredits_def selectSingle_def worldWithCredits_def)

lemma example_deduct:
  assumes "updateFault env = None"
  shows "deductCredit env exampleUser \<lparr>ai_credits_remaining = n, ai_credits_used = Some 0\<rparr>
           (worldWithCredits n) =
         ((worldWithCredits n)\<lparr>db := (db (worldWithCredits n))
             (exampleUser := Some \<lparr>ai_credits_remaining = n - 1, ai_credits_used = Some 1\<rparr>)\<rparr>,
          Continue ())"
  using assms
  by (simp add: deductCredit_def updateWhere_def deducted_def worldWithCredits_def)

lemma exampleEnv_fields [simp]:
  "req_method (exampleEnv u) = ascii ''POST''"
  "authorization (exampleEnv u) = Some (ascii ''Bearer token'')"
  "getUser (exampleEnv u) = Inr (Some exampleUser)"
  "selectFault (exampleEnv u) = None"
  "updateFault (exampleEnv u) = None"
  "req_json (exampleEnv u) = Inr (JObject [(ascii ''url'', JString u)])"
  "FIRECRAWL_API_KEY (exampleEnv u) = Some (ascii ''fc-key'')"
  "GEMINI_API_KEY (exampleEnv u) = Some (ascii ''gm-key'')"
  "GEMINI_MODEL (exampleEnv u) = None"
  "directResponse (exampleEnv u) = Inl (JsError (ascii ''network error''))"
  "scrapeResponse (exampleEnv u) = Inr \<lparr>scrape_ok = True, scrape_json = Inr exampleScrapeData\<rparr>"
  "aiResponse (exampleEnv u) =
     Inr \<lparr>ai_ok = True, ai_status = 200, ai_text = Inr [], ai_json = Inr exampleAiData\<rparr>"
  by (simp_all add: exampleEnv_def)

lemma formatUrl_notlinkedin:
  "formatUrl (ascii ''notlinkedin.com/jobs'') = ascii ''https://notlinkedin.com/jobs''"
  by (simp add: formatUrl_def trim_def isWhiteSpace_def startsWith_def ascii_def)

lemma notlinkedin_off_the_list:
  "\<not> isLoopbackName (ascii ''notlinkedin.com'')" "\<not> isPrivateAddress (ascii ''notlinkedin.com'')"
  "\<not> isAllowed (ascii ''notlinkedin.com'')"
  by code_simp+

lemma validateUrl_notlinkedin:
  "validateUrl examplePlatform (ascii ''notlinkedin.com/jobs'') = rejected MSG_UNSUPPORTED_SITE"
  by (simp add: validateUrl_def formatUrl_notlinkedin notlinkedin_off_the_list
      examplePlatform_def exampleUrls_def)

lemma worldWithCredits_simps [simp]:
  "calls (worldWithCredits n) = []"
  "db (worldWithCredits n) exampleUser =
     Some \<lparr>ai_credits_remaining = n, ai_credits_used = Some 0\<rparr>"
  by (simp_all add: worldWithCredits_def)

lemma formatUrl_wanted:
  "formatUrl (ascii ''wanted.co.kr/wd/12345'') = ascii ''https://wanted.co.kr/wd/12345''"
  by (simp add: formatUrl_def trim_def isWhiteSpace_def startsWith_def ascii_def)

lemma wanted_allowed: "isAllowed (ascii ''wanted.co.kr'')"
  by code_simp

lemma wanted_public:
  "\<not> isLoopbackName (ascii ''wanted.co.kr'')" "\<not> isPrivateAddress (ascii ''wanted.co.kr'')"
  by code_simp+

lemma validateUrl_wanted:
  assumes "URL_parse P (ascii ''https://wanted.co.kr/wd/12345'') =
             Some \<lparr>protocol = ascii ''https:'', hostname = h\<rparr>"
    and "toLowerCase P h = ascii ''wanted.co.kr''"
  shows "validateUrl P (ascii ''wanted.co.kr/wd/12345'') =
           \<lparr>valid = True, error = None, url = Some (ascii ''https://wanted.co.kr/wd/12345'')\<rparr>"
  using assms
  by (simp add: validateUrl_def formatUrl_wanted wanted_allowed wanted_public)

lemma validateUrl_wanted_example:
  "validateUrl examplePlatform (ascii ''wanted.co.kr/wd/12345'') =
     \<lparr>valid = True, error = None, url = Some (ascii ''https://wanted.co.kr/wd/12345'')\<rparr>"
  by (rule validateUrl_wanted [where h = "ascii ''wanted.co.kr''"])
     (simp_all add: examplePlatform_def exampleUrls_def)

lemma wanted_not_linkedin: "\<not> isLinkedIn (ascii ''https://wanted.co.kr/wd/12345'')"
  unfolding isLinkedIn_def by code_simp

lemma example_gate:
  assumes "req_json env = Inr (JObject [(ascii ''url'', JString u)])"
    and "validateUrl examplePlatform u = \<lparr>valid = True, error = None, url = Some f\<rparr>"
    and "1 \<le> length u" and "length u \<le> 2000"
    and "authorization env = Some (ascii ''Bearer token'')"
    and "getUser env = Inr (Some exampleUser)"
    and "selectFault env = None" and "updateFault env = None"
    and "FIRECRAWL_API_KEY env = Some (ascii ''fc-key'')"
    and "GEMINI_API_KEY env = Some (ascii ''gm-key'')"
    and "1 \<le> n"
  shows "gate examplePlatform env (worldWithCredits n) =
     (worldAfterGate n, Continue ((u, f), (ascii ''fc-key'', ascii ''gm-key'')))"
proof -
  let ?seen = "(exampleUser, \<lparr>ai_credits_remaining = n, ai_credits_used = Some 0\<rparr>)"
  have admitted: "admit env (worldWithCredits n) = Continue ?seen"
    using assms by (intro example_admit [where a = "ascii ''Bearer token''"]) simp_all
  have d: "deductCredit env (fst ?seen) (snd ?seen) (worldWithCredits n) =
      (worldAfterGate n, Continue ())"
    using assms(8) by (simp add: example_deduct worldAfterGate_def)
  have input: "parseInput examplePlatform env = Continue (u, f)"
    using assms(1-4) by (simp add: parseInput_def safeParse_def)
  have keys: "checkConfig env = Continue (ascii ''fc-key'', ascii ''gm-key'')"
    using assms(9,10) by (simp add: checkConfig_def)
  show ?thesis
    using gate_Continue [OF admitted _ input keys] d
    by (simp add: prod_eq_iff)
qed

lemma example_gate_wanted:
  assumes "req_json env = Inr (JObject [(ascii ''url'', JString wantedUrl)])"
    and "authorization env = Some (ascii ''Bearer token'')"
    and "getUser env = Inr (Some exampleUser)"
    and "selectFault env = None" and "updateFault env = None"
    and "FIRECRAWL_API_KEY env = Some (ascii ''fc-key'')"
    and "GEMINI_API_KEY env = Some (ascii ''gm-key'')"
    and "1 \<le> n"
  shows "gate examplePlatform env (worldWithCredits n) =
     (worldAfterGate n,
      Continue ((wantedUrl, ascii ''https://wanted.co.kr/wd/12345''),
                (ascii ''fc-key'', ascii ''gm-key'')))"
  using assms
  by (intro example_gate) (simp_all add: wantedUrl_def validateUrl_wanted_example)

lemma linkedin_listed:
  "\<not> isLoopbackName (ascii ''www.linkedin.com'')" "\<not> isPrivateAddress (ascii ''www.linkedin.com'')"
  "isAllowed (ascii ''www.linkedin.com'')"
  by code_simp+

lemma validateUrl_linkedin:
  "validateUrl examplePlatform linkedinUrl = \<lparr>valid = True, error = None, url = Some linkedinUrl\<rparr>"
proof -
  have "formatUrl linkedinUrl = linkedinUrl"
    by (simp add: linkedinUrl_def formatUrl_def trim_def isWhiteSpace_def startsWith_def ascii_def)
  then show ?thesis
    by (simp add: validateUrl_def linkedin_listed examplePlatform_def exampleUrls_def
        linkedinUrl_def)
qed

lemma example_gate_linkedin:
  assumes "req_json env = Inr (JObject [(ascii ''url'', JString linkedinUrl)])"
    and "authorization env = Some (ascii ''Bearer token'')"
    and "getUser env = Inr (Some exampleUser)"
    and "selectFault env = None" and "updateFault env = None"
    and "FIRECRAWL_API_KEY env = Some (ascii ''fc-key'')"
    and "GEMINI_API_KEY env = Some (ascii ''gm-key'')"
    and "1 \<le> n"
  shows "gate examplePlatform env (worldWithCredits n) =
     (worldAfterGate n, Continue ((linkedinUrl, linkedinUrl), (ascii ''fc-key'', ascii ''gm-key'')))"
  using assms
  by (intro example_gate) (simp_all add: validateUrl_linkedin, simp_all add: linkedinUrl_def)

lemma linkedin_is_linkedin: "isLinkedIn linkedinUrl"
  unfolding isLinkedIn_def linkedinUrl_def by code_simp

lemma extractPage_empty:
  "extractPage examplePlatform html =
     (ascii ''Title: '' @ [0x0A, 0x0A] @ ascii ''Description: '' @ [0x0A, 0x0A] @ [0x0A, 0x0A] @
      ascii ''Content:'' @ [0x0A], [])"
  by (simp add: extractPage_def examplePlatform_def)

lemma worldAfterGate_calls [simp]: "calls (worldAfterGate n) = []"
  by (simp add: worldAfterGate_def)

lemma example_fetch_wanted:
  assumes "scrapeResponse env = Inr \<lparr>scrape_ok = True, scrape_json = Inr exampleScrapeData\<rparr>"
  shows "fetchContent examplePlatform env (ascii ''fc-key'') (ascii ''https://wanted.co.kr/wd/12345'') w =
         (w\<lparr>calls := calls w @
             [firecrawlCall (ascii ''fc-key'') (ascii ''https://wanted.co.kr/wd/12345'')]\<rparr>,
          Continue (JString exampleMarkdown, JString (ascii ''Backend Engineer'')))"
proof -
  have d: "directFetch examplePlatform env (ascii ''https://wanted.co.kr/wd/12345'') w = (w, [], [])"
    by (simp add: directFetch_def wanted_not_linkedin)
  have t: "bothTiers examplePlatform env (ascii ''fc-key'') (ascii ''https://wanted.co.kr/wd/12345'') w =
      (w\<lparr>calls := calls w @
          [firecrawlCall (ascii ''fc-key'') (ascii ''https://wanted.co.kr/wd/12345'')]\<rparr>,
       Continue (JString exampleMarkdown, JString (ascii ''Backend Engineer'')))"
    unfolding bothTiers_def d using assms
    by (simp add: scrape_def exampleScrapeData_def scrapeFailed_def member_def truthyU_def
        orElse_def exampleMarkdown_def)
  show ?thesis
    by (simp add: fetchContent_def t) (simp add: exampleMarkdown_def)
qed

lemma example_ask:
  assumes "aiResponse env = Inr (aiAnswers v)"
  shows "snd (askGemini examplePlatform env k (JString c, JString t) w) = Continue v"
  using assms by (simp add: askGemini_def inTemplate_def aiAnswers_def)

lemma example_answer:
  "normalizeGeminiToLovable examplePlatform exampleAiData =
     Inr (Some \<lparr>choices = [\<lparr>message_content = Some [],
       tool_calls = Some [\<lparr>arguments = Some (ascii ''{\"isJobPosting\":true}'')\<rparr>]\<rparr>]\<rparr>)"
  by (simp add: exampleAiData_def normalize_call nullish_def argumentsJson_def
      example_JSON_stringify)

lemma example_pipeline:
  "snd (pipeline examplePlatform (exampleEnv wantedUrl)
     ((wantedUrl, ascii ''https://wanted.co.kr/wd/12345''), (ascii ''fc-key'', ascii ''gm-key'')) w) =
   Return (jobPosting (JObject [(ascii ''isJobPosting'', JBool True)]) wantedUrl)"
proof -
  let ?env = "exampleEnv wantedUrl"
  let ?page = "(JString exampleMarkdown, JString (ascii ''Backend Engineer''))"
  let ?w2 = "w\<lparr>calls := calls w @
             [firecrawlCall (ascii ''fc-key'') (ascii ''https://wanted.co.kr/wd/12345'')]\<rparr>"
  have f: "fetchContent examplePlatform ?env (ascii ''fc-key'')
      (ascii ''https://wanted.co.kr/wd/12345'') w = (?w2, Continue ?page)"
    by (rule example_fetch_wanted) simp
  have a: "snd (askGemini examplePlatform ?env (ascii ''gm-key'') ?page ?w2) = Continue exampleAiData"
    by (rule example_ask) (simp add: aiAnswers_def)
  have r: "respondWith examplePlatform wantedUrl exampleAiData =
      Return (jobPosting (JObject [(ascii ''isJobPosting'', JBool True)]) wantedUrl)"
    by (simp add: respondWith_def example_answer answer_def firstToolCall_def parseJobData_def
        example_JSON_parse truthyU_def)
  have "pipeline examplePlatform ?env
      ((wantedUrl, ascii ''https://wanted.co.kr/wd/12345''), (ascii ''fc-key'', ascii ''gm-key'')) w =
      runExtraction examplePlatform ?env (ascii ''gm-key'') wantedUrl ?page ?w2"
    using pipeline_fetched [of examplePlatform ?env
        "((wantedUrl, ascii ''https://wanted.co.kr/wd/12345''), (ascii ''fc-key'', ascii ''gm-key''))"
        w ?w2 ?page] f
    by simp
  then show ?thesis
    using a r
    by (cases "askGemini examplePlatform ?env (ascii ''gm-key'') ?page ?w2")
       (simp add: runExtraction_def)
qed

section \<open>C1: a host name off the allowlist is rejected before any fetch\<close>

lemma formatUrl_evil:
  "formatUrl (ascii ''evil-linkedin.com.attacker.net/jobs'') =
     ascii ''https://evil-linkedin.com.attacker.net/jobs''"
  by (simp add: formatUrl_def trim_def isWhiteSpace_def startsWith_def ascii_def)

lemma hostOf_evil:
  "hostOf examplePlatform (ascii ''evil-linkedin.com.attacker.net/jobs'') =
     Some (ascii ''evil-linkedin.com.attacker.net'')"
  by (simp add: hostOf_def formatUrl_evil examplePlatform_def exampleUrls_def)

lemma evil_not_allowed: "\<not> isAllowed (ascii ''evil-linkedin.com.attacker.net'')"
  by code_simp

lemma safeParse_url:
  "1 \<le> length u \<Longrightarrow> length u \<le> 2000 \<Longrightarrow> safeParse (JObject [(ascii ''url'', JString u)]) = Inr u"
  by (simp add: safeParse_def)

text \<open>
  Claim C1. Take any input whose host name (the lower-cased host name the URL parser finds
  in the formatted input) is neither an allowlisted domain nor ends with a dot followed
  by one; an input that does not parse has no host name and is covered too. Then the
  validator returns an invalid result with a non-empty error string. And for every request
  that carries this input as its \<open>url\<close> (any method but the preflight \<open>OPTIONS\<close>), the
  handler's input step returns status 400 with the validator's error, the invocation makes
  no outbound call at all (no direct fetch, no scrape, no model call), and its response is
  an error response.
\<close>

theorem C1_unlisted_host_rejected_without_fetch:
  assumes "\<forall>h. hostOf P u = Some h \<longrightarrow> \<not> onAllowlist h"
  shows "\<not> valid (validateUrl P u) \<and>
         (\<exists>msg. error (validateUrl P u) = Some msg \<and> msg \<noteq> []) \<and>
         (\<forall>env rawBody w.
            req_json env = Inr rawBody \<and> safeParse rawBody = Inr u \<and>
            req_method env \<noteq> ascii ''OPTIONS'' \<longrightarrow>
            parseInput P env =
              Return \<lparr>status = 400,
                body = Some \<lparr>success = False, reply_error = error (validateUrl P u),
                  details = None, unsupportedSite = False, noContent = False,
                  data = None\<rparr>\<rparr> \<and>
            calls (fst (serve P env w)) = calls w \<and>
            isFailure (snd (serve P env w)))"
proof -
  have invalid: "\<not> valid (validateUrl P u)"
    using assms by (rule validateUrl_unlisted)
  have message: "\<exists>msg. error (validateUrl P u) = Some msg \<and> msg \<noteq> []"
    using invalid by (rule validateUrl_invalid_error)
  have handler:
    "parseInput P env =
       Return \<lparr>status = 400,
         body = Some \<lparr>success = False, reply_error = error (validateUrl P u),
           details = None, unsupportedSite = False, noContent = False, data = None\<rparr>\<rparr> \<and>
     calls (fst (serve P env w)) = calls w \<and> isFailure (snd (serve P env w))"
    if body: "req_json env = Inr rawBody" "safeParse rawBody = Inr u"
      and post: "req_method env \<noteq> ascii ''OPTIONS''"
    for env rawBody w
  proof -
    have step: "parseInput P env =
       Return \<lparr>status = 400,
         body = Some \<lparr>success = False, reply_error = error (validateUrl P u),
           details = None, unsupportedSite = False, noContent = False, data = None\<rparr>\<rparr>"
      using body invalid by (simp add: parseInput_def)
    then have "\<forall>a. parseInput P env \<noteq> Continue a" by simp
    then have "\<forall>b. snd (gate P env w) \<noteq> Continue b"
      using gate_stops_at_input [of P env w] by blast
    then show ?thesis
      using step serve_stopped [of P env w] post by simp
  qed
  show ?thesis using invalid message handler by blast
qed

theorem C1_witness:
  "hostOf examplePlatform (ascii ''evil-linkedin.com.attacker.net/jobs'') =
     Some (ascii ''evil-linkedin.com.attacker.net'') \<and>
   \<not> onAllowlist (ascii ''evil-linkedin.com.attacker.net'') \<and>
   \<not> valid (validateUrl examplePlatform (ascii ''evil-linkedin.com.attacker.net/jobs'')) \<and>
   calls (fst (serve examplePlatform
     (exampleEnv (ascii ''evil-linkedin.com.attacker.net/jobs'')) (worldWithCredits 3))) = [] \<and>
   isFailure (snd (serve examplePlatform
     (exampleEnv (ascii ''evil-linkedin.com.attacker.net/jobs'')) (worldWithCredits 3)))"
proof -
  let ?u = "ascii ''evil-linkedin.com.attacker.net/jobs''"
  have off: "\<not> onAllowlist (ascii ''evil-linkedin.com.attacker.net'')"
    using evil_not_allowed by (simp add: isAllowed_onAllowlist)
  have hyp: "\<forall>h. hostOf examplePlatform ?u = Some h \<longrightarrow> \<not> onAllowlist h"
    using off by (simp add: hostOf_evil)
  have request:
    "req_json (exampleEnv ?u) = Inr (JObject [(ascii ''url'', JString ?u)]) \<and>
     safeParse (JObject [(ascii ''url'', JString ?u)]) = Inr ?u \<and>
     req_method (exampleEnv ?u) \<noteq> ascii ''OPTIONS''"
    by (simp add: exampleEnv_def safeParse_url)
  have "calls (worldWithCredits 3) = []"
    by (simp add: worldWithCredits_def)
  then show ?thesis
    using C1_unlisted_host_rejected_without_fetch [OF hyp] request off hostOf_evil
    by (metis (no_types, lifting))
qed

section \<open>C2: two requests racing for the last credit\<close>

lemma example_enter:
  "snd (enter examplePlatform (exampleEnv wantedUrl) seen w) =
     Continue ((wantedUrl, ascii ''https://wanted.co.kr/wd/12345''),
               (ascii ''fc-key'', ascii ''gm-key''))"
proof (rule enter_Continue)
  show "parseInput examplePlatform (exampleEnv wantedUrl) =
      Continue (wantedUrl, ascii ''https://wanted.co.kr/wd/12345'')"
    by (simp add: parseInput_def safeParse_def wantedUrl_def validateUrl_wanted_example)
  show "checkConfig (exampleEnv wantedUrl) = Continue (ascii ''fc-key'', ascii ''gm-key'')"
    by (simp add: checkConfig_def)
qed simp

lemma example_run:
  "snd (caught (andThen (enter examplePlatform (exampleEnv wantedUrl) seen w)
      (pipeline examplePlatform (exampleEnv wantedUrl)))) =
     jobPosting (JObject [(ascii ''isJobPosting'', JBool True)]) wantedUrl"
proof -
  let ?P = examplePlatform and ?env = "exampleEnv wantedUrl"
  let ?a = "((wantedUrl, ascii ''https://wanted.co.kr/wd/12345''), (ascii ''fc-key'', ascii ''gm-key''))"
  obtain w1 where e: "enter ?P ?env seen w = (w1, Continue ?a)"
    using example_enter [of seen w] by (cases "enter ?P ?env seen w") simp
  obtain w2 where p: "pipeline ?P ?env ?a w1 =
      (w2, Return (jobPosting (JObject [(ascii ''isJobPosting'', JBool True)]) wantedUrl))"
    using example_pipeline [of w1] by (cases "pipeline ?P ?env ?a w1") simp
  show ?thesis
    by (simp add: e p)
qed

text \<open>
  Claim C2 in its own scenario: two requests of one user that both read the row
  (line 318) with a balance of exactly 1 before either conditional update (line 340) runs,
  and a database that answers both updates without an error; the schedule is the
  definition \<open>raced\<close>. Whatever the two requests ask for, the first update changes the
  row and the second matches no row, so the balance drops once, from 1 to 0; it is never
  negative (lemma \<open>credits_never_negative\<close>). But neither request is answered 409. The
  update of line 340 names no count algorithm, so \<open>count\<close> is \<open>null\<close> and the test
  \<open>updatedCount === 0\<close> of line 350 is false (lemma \<open>deductCredit_goes_on\<close>); had the
  query named one, the count would be 0 (lemma \<open>updateWhere_counted\<close>). The request that
  lost the race goes on to the validation, the fetch and the model: in the example below
  both requests are answered 200 with a job posting, for one credit.
\<close>

theorem C2_lost_race_is_not_answered_409:
  assumes "admit envA w = Continue (uid, s)"
    and "admit envB w = Continue (uid, s)"
    and "ai_credits_remaining s = 1"
    and "updateFault envA = None"
    and "updateFault envB = None"
  shows "db (fst (raced P envA envB w)) uid = Some (deducted s) \<and>
         ai_credits_remaining (deducted s) = 0 \<and>
         status (fst (snd (raced P envA envB w))) \<noteq> 409 \<and>
         status (snd (snd (raced P envA envB w))) \<noteq> 409"
proof -
  let ?a = "caught (andThen (enter P envA (uid, s) w) (pipeline P envA))"
  let ?b = "caught (andThen (enter P envB (uid, s) (fst ?a)) (pipeline P envB))"
  have r: "raced P envA envB w = (fst ?b, snd ?a, snd ?b)"
    by (simp add: raced_def assms(1,2) Let_def)
  have row: "db w uid = Some s"
    using admit_row [OF assms(1)] by simp
  have dbA: "db (fst ?a) = (db w)(uid := Some (deducted s))"
    using row assms(4) by (simp add: db_proceed db_deductCredit updateWhere_def)
  have "ai_credits_remaining (deducted s) \<noteq> ai_credits_remaining s"
    by (simp add: deducted_def)
  then have dbB: "db (fst ?b) = db (fst ?a)"
    using assms(5) dbA
    by (simp add: db_proceed db_deductCredit updateWhere_def)
  have balance: "db (fst ?b) uid = Some (deducted s)"
    using dbA dbB by simp
  have "status (snd ?a) \<in> {200, 400, 402, 429, 500}"
    using assms(4) by (rule proceed_status)
  then have statusA: "status (snd ?a) \<noteq> 409" by auto
  have "status (snd ?b) \<in> {200, 400, 402, 429, 500}"
    using assms(5) by (rule proceed_status)
  then have statusB: "status (snd ?b) \<noteq> 409" by auto
  show ?thesis
    using balance statusA statusB assms(3) by (simp add: r deducted_def)
qed

theorem C2_witness:
  "admit (exampleEnv wantedUrl) (worldWithCredits 1) =
     Continue (exampleUser, \<lparr>ai_credits_remaining = 1, ai_credits_used = Some 0\<rparr>) \<and>
   updateFault (exampleEnv wantedUrl) = None \<and>
   db (fst (raced examplePlatform (exampleEnv wantedUrl) (exampleEnv wantedUrl)
     (worldWithCredits 1))) exampleUser =
     Some \<lparr>ai_credits_remaining = 0, ai_credits_used = Some 1\<rparr> \<and>
   status (fst (snd (raced examplePlatform (exampleEnv wantedUrl) (exampleEnv wantedUrl)
     (worldWithCredits 1)))) = 200 \<and>
   status (snd (snd (raced examplePlatform (exampleEnv wantedUrl) (exampleEnv wantedUrl)
     (worldWithCredits 1)))) = 200"
proof -
  let ?P = examplePlatform and ?env = "exampleEnv wantedUrl"
  let ?s = "\<lparr>ai_credits_remaining = 1, ai_credits_used = Some 0\<rparr>"
  let ?a = "caught (andThen (enter ?P ?env (exampleUser, ?s) (worldWithCredits 1)) (pipeline ?P ?env))"
  let ?b = "caught (andThen (enter ?P ?env (exampleUser, ?s) (fst ?a)) (pipeline ?P ?env))"
  have admitted: "admit ?env (worldWithCredits 1) = Continue (exampleUser, ?s)"
    by (rule example_admit [where a = "ascii ''Bearer token''"]) simp_all
  have one: "ai_credits_remaining ?s = 1" by simp
  have noFault: "updateFault ?env = None" by simp
  have r: "raced ?P ?env ?env (worldWithCredits 1) = (fst ?b, snd ?a, snd ?b)"
    by (simp add: raced_def admitted Let_def)
  have "status (snd ?a) = 200" "status (snd ?b) = 200"
    by (simp_all add: example_run jobPosting_def)
  then show ?thesis
    using C2_lost_race_is_not_answered_409 [OF admitted admitted one noFault noFault, of ?P]
      admitted noFault
    by (simp add: r deducted_def)
qed

section \<open>C3: when the credit is deducted\<close>

text \<open>
  The claim fails in its last part. A request of a user with 3 credits for
  \<open>notlinkedin.com/jobs\<close> is answered 400 by the URL validator, so no extraction
  succeeds, and yet the credit is gone: the conditional update of line 340 has run before
  the body of the request is read at line 361.
\<close>

theorem C3_counterexample:
  "status (snd (serve examplePlatform (exampleEnv (ascii ''notlinkedin.com/jobs''))
     (worldWithCredits 3))) = 400 \<and>
   isFailure (snd (serve examplePlatform (exampleEnv (ascii ''notlinkedin.com/jobs''))
     (worldWithCredits 3))) \<and>
   calls (fst (serve examplePlatform (exampleEnv (ascii ''notlinkedin.com/jobs''))
     (worldWithCredits 3))) = [] \<and>
   db (worldWithCredits 3) exampleUser =
     Some \<lparr>ai_credits_remaining = 3, ai_credits_used = Some 0\<rparr> \<and>
   db (fst (serve examplePlatform (exampleEnv (ascii ''notlinkedin.com/jobs''))
     (worldWithCredits 3))) exampleUser =
     Some \<lparr>ai_credits_remaining = 2, ai_credits_used = Some 1\<rparr>"
proof -
  let ?env = "exampleEnv (ascii ''notlinkedin.com/jobs'')"
  let ?seen = "(exampleUser, \<lparr>ai_credits_remaining = 3, ai_credits_used = Some 0\<rparr>)"
  have admitted: "admit ?env (worldWithCredits 3) = Continue ?seen"
    by (rule example_admit [where a = "ascii ''Bearer token''"]) simp_all
  have deducted: "snd (deductCredit ?env (fst ?seen) (snd ?seen) (worldWithCredits 3)) = Continue ()"
    by (simp add: example_deduct)
  have input: "parseInput examplePlatform ?env = Return (failure 400 MSG_UNSUPPORTED_SITE)"
    by (simp add: parseInput_def safeParse_def validateUrl_notlinkedin failure_def)
  note g = gate_Return_at_input [OF admitted deducted input]
  have s: "serve examplePlatform ?env (worldWithCredits 3) =
      (fst (deductCredit ?env (fst ?seen) (snd ?seen) (worldWithCredits 3)),
       failure 400 MSG_UNSUPPORTED_SITE)"
    using handle_gate_Return [OF g(1)] g(2) by (simp add: serve_def)
  show ?thesis
    by (simp add: s example_deduct)
qed

text \<open>
  Claim C3, amended. For every analyze-job request that authenticates and whose
  subscription row is read: if the remaining credit count read is below 1, the handler
  answers 402 with the payment-required message and leaves the world as it was, so the
  balance is unchanged and no fetch or AI call is made. Otherwise, when the conditional
  update of line 340 runs without a database error, the request deducts exactly when the
  row still holds, at the update, the balance that was read at line 318. Then the row is
  written once with one credit less and one use more than was read, before the input is
  validated and whether or not the extraction then succeeds; this is so for every
  invocation that no other request interleaves with (\<open>serve\<close> on one world). When another
  request has changed the balance between the read and the update (the read in the world
  \<open>w\<close>, the rest of the request in a world \<open>w'\<close>), the update matches no row and this
  request deducts nothing: the table is left as that request found it.
\<close>

theorem C3_credit_deducted_before_validation:
  assumes "req_method env \<noteq> ascii ''OPTIONS''"
    and "authenticate env = Continue uid"
    and "selectFault env = None"
    and "db w uid = Some s"
  shows "(ai_credits_remaining s < 1 \<longrightarrow> serve P env w = (w, failure 402 MSG_NO_CREDITS)) \<and>
         (1 \<le> ai_credits_remaining s \<and> updateFault env = None \<longrightarrow>
            db (fst (serve P env w)) = (db w)(uid := Some (deducted s)) \<and>
            ai_credits_remaining (deducted s) = ai_credits_remaining s - 1 \<and>
            (\<forall>w'. db (fst (caught (andThen (andThen (w', admit env w) (enter P env))
                                    (pipeline P env)))) =
               (if map_option ai_credits_remaining (db w' uid) = Some (ai_credits_remaining s)
                then (db w')(uid := Some (deducted s)) else db w')))"
proof -
  have zero: "serve P env w = (w, failure 402 MSG_NO_CREDITS)"
    if "ai_credits_remaining s < 1"
  proof -
    have "admit env w = Return (failure 402 MSG_NO_CREDITS)"
      using that assms by (simp add: admit_def readCredits_def selectSingle_def)
    then show ?thesis
      using assms(1) by (simp add: serve_def handle_def gate_def)
  qed
  have once: "db (fst (serve P env w)) = (db w)(uid := Some (deducted s)) \<and>
      ai_credits_remaining (deducted s) = ai_credits_remaining s - 1 \<and>
      (\<forall>w'. db (fst (caught (andThen (andThen (w', admit env w) (enter P env))
                              (pipeline P env)))) =
         (if map_option ai_credits_remaining (db w' uid) = Some (ai_credits_remaining s)
          then (db w')(uid := Some (deducted s)) else db w'))"
    if a: "1 \<le> ai_credits_remaining s \<and> updateFault env = None"
  proof -
    have admitted: "admit env w = Continue (uid, s)"
      using a assms by (simp add: admit_def readCredits_def selectSingle_def)
    have later: "db (fst (andThen (enter P env (uid, s) w') (pipeline P env))) =
        (if map_option ai_credits_remaining (db w' uid) = Some (ai_credits_remaining s)
         then (db w')(uid := Some (deducted s)) else db w')" for w'
      using a
      by (cases "db w' uid") (simp_all add: db_proceed db_deductCredit updateWhere_def)
    have "db (fst (handle P env w)) = db (fst (andThen (enter P env (uid, s) w) (pipeline P env)))"
      by (simp add: handle_def gate_def admitted)
    then have alone: "db (fst (serve P env w)) = (db w)(uid := Some (deducted s))"
      using assms(1,4) by (simp add: serve_def later)
    show ?thesis
      using alone later by (simp add: admitted deducted_def)
  qed
  show ?thesis
    using zero once by blast
qed

theorem C3_witness:
  "req_method (exampleEnv (ascii ''notlinkedin.com/jobs'')) \<noteq> ascii ''OPTIONS'' \<and>
   authenticate (exampleEnv (ascii ''notlinkedin.com/jobs'')) = Continue exampleUser \<and>
   selectFault (exampleEnv (ascii ''notlinkedin.com/jobs'')) = None \<and>
   updateFault (exampleEnv (ascii ''notlinkedin.com/jobs'')) = None \<and>
   serve examplePlatform (exampleEnv (ascii ''notlinkedin.com/jobs'')) (worldWithCredits 0) =
     (worldWithCredits 0, failure 402 MSG_NO_CREDITS) \<and>
   db (fst (serve examplePlatform (exampleEnv (ascii ''notlinkedin.com/jobs''))
     (worldWithCredits 3))) exampleUser =
     Some \<lparr>ai_credits_remaining = 2, ai_credits_used = Some 1\<rparr> \<and>
   db (fst (caught (andThen
       (andThen (fst (serve examplePlatform (exampleEnv (ascii ''notlinkedin.com/jobs''))
                        (worldWithCredits 3)),
                 admit (exampleEnv (ascii ''notlinkedin.com/jobs'')) (worldWithCredits 3))
          (enter examplePlatform (exampleEnv (ascii ''notlinkedin.com/jobs''))))
       (pipeline examplePlatform (exampleEnv (ascii ''notlinkedin.com/jobs'')))))) exampleUser =
     Some \<lparr>ai_credits_remaining = 2, ai_credits_used = Some 1\<rparr>"
proof -
  let ?env = "exampleEnv (ascii ''notlinkedin.com/jobs'')"
  let ?after = "fst (serve examplePlatform ?env (worldWithCredits 3))"
  have post: "req_method ?env \<noteq> ascii ''OPTIONS''" by simp
  have user: "authenticate ?env = Continue exampleUser"
    by (simp add: authenticate_def)
  have noFault: "selectFault ?env = None" by simp
  have row: "db (worldWithCredits n) exampleUser =
      Some \<lparr>ai_credits_remaining = n, ai_credits_used = Some 0\<rparr>" for n
    by simp
  note claim = C3_credit_deducted_before_validation [OF post user noFault row, of _ examplePlatform]
  have zero: "serve examplePlatform ?env (worldWithCredits 0) =
      (worldWithCredits 0, failure 402 MSG_NO_CREDITS)"
    using claim [of 0] by simp
  have three: "db ?after exampleUser = Some \<lparr>ai_credits_remaining = 2, ai_credits_used = Some 1\<rparr>"
    using claim [of 3] by (simp add: deducted_def)
  have "db (fst (caught (andThen
       (andThen (?after, admit ?env (worldWithCredits 3)) (enter examplePlatform ?env))
       (pipeline examplePlatform ?env)))) =
     (if map_option ai_credits_remaining (db ?after exampleUser) =
           Some (ai_credits_remaining \<lparr>ai_credits_remaining = 3, ai_credits_used = Some 0\<rparr>)
      then (db ?after)(exampleUser :=
             Some (deducted \<lparr>ai_credits_remaining = 3, ai_credits_used = Some 0\<rparr>))
      else db ?after)"
    using claim [of 3, THEN conjunct2, rule_format, THEN conjunct2, THEN conjunct2,
        rule_format, of ?after]
    by simp
  then have lost: "db (fst (caught (andThen
       (andThen (?after, admit ?env (worldWithCredits 3)) (enter examplePlatform ?env))
       (pipeline examplePlatform ?env)))) exampleUser =
     Some \<lparr>ai_credits_remaining = 2, ai_credits_used = Some 1\<rparr>"
    using three by simp
  show ?thesis
    using post user zero three lost by simp
qed
section \<open>C4: a site the scraping service does not support\<close>

text \<open>
  Claim C4. Let a request pass the gate (authentication, credit, input and keys), so that
  its URL is valid and allowlisted, and let the formatted URL not be a LinkedIn one (it
  does not contain \<open>linkedin.com\<close>, the test of line 415). If the scraping API's
  response is not successful (the HTTP response is not ok, or \<open>success\<close> of its body is
  not truthy) and the \<open>error\<close> of its body is a string that contains
  \<open>not currently supported\<close>, the handler answers with \<open>success: false\<close> and
  \<open>unsupportedSite: true\<close>, the scrape is the only outbound call of the invocation, and
  the AI model is not called.
\<close>

theorem C4_unsupported_site_stops_before_the_model:
  assumes "req_method env \<noteq> ascii ''OPTIONS''"
    and "gate P env w = (w1, Continue ((u, formattedUrl), (firecrawlApiKey, geminiApiKey)))"
    and "\<not> isLinkedIn formattedUrl"
    and "scrapeResponse env = Inr r"
    and "scrape_json r = Inr scrapeData"
    and "\<not> scrape_ok r \<or> \<not> truthyU (chain (Some scrapeData) (ascii ''success''))"
    and "chain (Some scrapeData) (ascii ''error'') = Some (JString msg)"
    and "str_includes msg notSupportedPhrase"
  shows "snd (serve P env w) = unsupportedSiteResponse \<and>
         (\<exists>b. body (snd (serve P env w)) = Some b \<and> \<not> success b \<and> unsupportedSite b) \<and>
         calls (fst (serve P env w)) = calls w @ [firecrawlCall firecrawlApiKey formattedUrl] \<and>
         aiCalls (fst (serve P env w)) = aiCalls w"
proof -
  have object: "scrapeData \<noteq> JNull"
    using assms(7) by auto
  have failed: "scrapeFailed r scrapeData = Inr True"
    using assms(6) object by (auto simp: scrapeFailed_def member_def)
  have unsupported: "isUnsupported scrapeData = Inr True"
    using assms(7,8) object by (simp add: isUnsupported_def member_def nullish_def)
  have direct: "directFetch P env formattedUrl w1 = (w1, [], [])"
    using assms(3) by (simp add: directFetch_def)
  have tiers: "bothTiers P env firecrawlApiKey formattedUrl w1 =
      (w1\<lparr>calls := calls w1 @ [firecrawlCall firecrawlApiKey formattedUrl]\<rparr>,
       Return unsupportedSiteResponse)"
    using assms(4,5) failed unsupported by (simp add: bothTiers_def direct scrape_def)
  have "pipeline P env ((u, formattedUrl), (firecrawlApiKey, geminiApiKey)) w1 =
      (w1\<lparr>calls := calls w1 @ [firecrawlCall firecrawlApiKey formattedUrl]\<rparr>,
       Return unsupportedSiteResponse)"
    by (rule pipeline_stopped) (simp add: fetchContent_def tiers)
  then have s: "serve P env w =
      (w1\<lparr>calls := calls w1 @ [firecrawlCall firecrawlApiKey formattedUrl]\<rparr>,
       unsupportedSiteResponse)"
    using serve_pipeline [OF assms(1,2)] by simp
  have w1: "calls w1 = calls w"
    using gate_calls [of P env w] assms(2) by simp
  show ?thesis
    by (simp add: s w1 aiCalls_def firecrawlCall_def unsupportedSiteResponse_def)
qed

theorem C4_witness:
  "\<not> isLinkedIn (ascii ''https://wanted.co.kr/wd/12345'') \<and>
   str_includes (ascii ''This website is not currently supported.'') notSupportedPhrase \<and>
   snd (serve examplePlatform ((exampleEnv wantedUrl)\<lparr>scrapeResponse := Inr unsupportedScrape\<rparr>)
     (worldWithCredits 3)) = unsupportedSiteResponse \<and>
   calls (fst (serve examplePlatform ((exampleEnv wantedUrl)\<lparr>scrapeResponse := Inr unsupportedScrape\<rparr>)
     (worldWithCredits 3))) =
     [firecrawlCall (ascii ''fc-key'') (ascii ''https://wanted.co.kr/wd/12345'')]"
proof -
  let ?env = "(exampleEnv wantedUrl)\<lparr>scrapeResponse := Inr unsupportedScrape\<rparr>"
  let ?data = "JObject
        [(ascii ''success'', JBool False),
         (ascii ''error'', JString (ascii ''This website is not currently supported.''))]"
  have post: "req_method ?env \<noteq> ascii ''OPTIONS''" by simp
  have g: "gate examplePlatform ?env (worldWithCredits 3) =
     (worldAfterGate 3,
      Continue ((wantedUrl, ascii ''https://wanted.co.kr/wd/12345''),
                (ascii ''fc-key'', ascii ''gm-key'')))"
    by (rule example_gate_wanted) simp_all
  have r: "scrapeResponse ?env = Inr unsupportedScrape" by simp
  have j: "scrape_json unsupportedScrape = Inr ?data"
    by (simp add: unsupportedScrape_def)
  have notOk: "\<not> scrape_ok unsupportedScrape \<or> \<not> truthyU (chain (Some ?data) (ascii ''success''))"
    by (simp add: unsupportedScrape_def)
  have e: "chain (Some ?data) (ascii ''error'') =
      Some (JString (ascii ''This website is not currently supported.''))"
    by simp
  have phrase: "str_includes (ascii ''This website is not currently supported.'') notSupportedPhrase"
    unfolding notSupportedPhrase_def by code_simp
  show ?thesis
    using C4_unsupported_site_stops_before_the_model
      [OF post g wanted_not_linkedin r j notOk e phrase]
      wanted_not_linkedin phrase
    by simp
qed

section \<open>C5: no tool call, or arguments that do not parse\<close>

text \<open>
  Claim C5. Let a request get as far as the answer of the model: it passes the gate, the
  content fetcher goes on with a page, the call of the model returns a body, and the
  adapter normalizes it. If the normalized response has no first tool call (also when
  it is \<open>null\<close>), or the arguments of its first tool call do not parse as JSON, the handler
  answers 400 with \<open>success: false\<close> and \<open>noContent: true\<close> and without \<open>data\<close>: no job
  posting is returned.
\<close>

theorem C5_no_tool_call_gives_no_content:
  assumes "req_method env \<noteq> ascii ''OPTIONS''"
    and "gate P env w = (w1, Continue ((u, formattedUrl), (firecrawlApiKey, geminiApiKey)))"
    and "fetchContent P env firecrawlApiKey formattedUrl w1 = (w2, Continue page)"
    and "askGemini P env geminiApiKey page w2 = (w3, Continue aiDataRaw)"
    and "normalizeGeminiToLovable P aiDataRaw = Inr aiData"
    and "firstToolCall aiData = None \<or>
         (\<exists>t a. firstToolCall aiData = Some t \<and> arguments t = Some a \<and> JSON_parse P a = None)"
  shows "snd (serve P env w) = noContentResponse \<and>
         status (snd (serve P env w)) = 400 \<and>
         (\<exists>b. body (snd (serve P env w)) = Some b \<and> \<not> success b \<and> noContent b \<and> data b = None)"
proof -
  have "parseJobData P (firstToolCall aiData) = None"
    using assms(6) by (auto simp: parseJobData_def)
  then have a: "answer P u aiData = noContentResponse"
    by (simp add: answer_def truthyU_def)
  have "pipeline P env ((u, formattedUrl), (firecrawlApiKey, geminiApiKey)) w1 =
      runExtraction P env geminiApiKey u page w2"
    using pipeline_fetched [of P env "((u, formattedUrl), (firecrawlApiKey, geminiApiKey))" w1 w2 page]
      assms(3) by simp
  also have "\<dots> = (w3, Return noContentResponse)"
    using assms(4,5) a by (simp add: runExtraction_def respondWith_def)
  finally have "serve P env w = (w3, noContentResponse)"
    using serve_pipeline [OF assms(1,2)] by simp
  then show ?thesis
    by (simp add: noContentResponse_def)
qed

theorem C5_witness:
  "normalizeGeminiToLovable examplePlatform
      (providerResponse [functionCallPart (JString (ascii ''hello''))]) =
     Inr (Some \<lparr>choices = [\<lparr>message_content = Some [],
       tool_calls = Some [\<lparr>arguments = Some (ascii ''hello'')\<rparr>]\<rparr>]\<rparr>) \<and>
   JSON_parse examplePlatform (ascii ''hello'') = None \<and>
   snd (serve examplePlatform
      ((exampleEnv wantedUrl)\<lparr>aiResponse :=
         Inr (aiAnswers (providerResponse [functionCallPart (JString (ascii ''hello''))]))\<rparr>)
      (worldWithCredits 3)) = noContentResponse"
proof -
  let ?raw = "providerResponse [functionCallPart (JString (ascii ''hello''))]"
  let ?env = "(exampleEnv wantedUrl)\<lparr>aiResponse := Inr (aiAnswers ?raw)\<rparr>"
  let ?aiData = "Some \<lparr>choices = [\<lparr>message_content = Some [],
       tool_calls = Some [\<lparr>arguments = Some (ascii ''hello'')\<rparr>]\<rparr>]\<rparr>"
  let ?page = "(JString exampleMarkdown, JString (ascii ''Backend Engineer''))"
  let ?w2 = "(worldAfterGate 3)\<lparr>calls := calls (worldAfterGate 3) @
             [firecrawlCall (ascii ''fc-key'') (ascii ''https://wanted.co.kr/wd/12345'')]\<rparr>"
  have post: "req_method ?env \<noteq> ascii ''OPTIONS''" by simp
  have g: "gate examplePlatform ?env (worldWithCredits 3) =
     (worldAfterGate 3,
      Continue ((wantedUrl, ascii ''https://wanted.co.kr/wd/12345''),
                (ascii ''fc-key'', ascii ''gm-key'')))"
    by (rule example_gate_wanted) simp_all
  have f: "fetchContent examplePlatform ?env (ascii ''fc-key'')
      (ascii ''https://wanted.co.kr/wd/12345'') (worldAfterGate 3) = (?w2, Continue ?page)"
    by (rule example_fetch_wanted) simp
  have "snd (askGemini examplePlatform ?env (ascii ''gm-key'') ?page ?w2) = Continue ?raw"
    by (rule example_ask) simp
  then have a: "askGemini examplePlatform ?env (ascii ''gm-key'') ?page ?w2 =
      (fst (askGemini examplePlatform ?env (ascii ''gm-key'') ?page ?w2), Continue ?raw)"
    by (simp add: prod_eq_iff)
  have n: "normalizeGeminiToLovable examplePlatform ?raw = Inr ?aiData"
    by (simp add: normalize_call nullish_def argumentsJson_def)
  have noJson: "JSON_parse examplePlatform (ascii ''hello'') = None"
    by (rule example_JSON_parse)
  have t: "firstToolCall ?aiData = None \<or>
      (\<exists>t a. firstToolCall ?aiData = Some t \<and> arguments t = Some a \<and>
         JSON_parse examplePlatform a = None)"
    using noJson by (simp add: firstToolCall_def)
  show ?thesis
    using C5_no_tool_call_gives_no_content [OF post g f a n t] n noJson by simp
qed

section \<open>C6: the two tiers of the content fetcher\<close>

text \<open>
  Claim C6. Let a request pass the gate. If the content of the direct fetch is empty or
  shorter than 100 characters (it is empty when no direct fetch is made or the fetch
  fails), the content fetcher calls the scraping API next, for the formatted URL, with
  the formats \<open>markdown\<close> and \<open>onlyMainContent: true\<close>, and that call is among the calls
  of the invocation. And if the content after both tiers is a string that is empty or
  shorter than 50 characters, the handler answers 400 with the message of line 531 (the
  page content cannot be retrieved) and the AI model is not called.
\<close>

theorem C6_two_tier_fallback:
  assumes "req_method env \<noteq> ascii ''OPTIONS''"
    and "gate P env w = (w1, Continue ((u, formattedUrl), (firecrawlApiKey, geminiApiKey)))"
  shows "(fst (snd (directFetch P env formattedUrl w1)) = [] \<or>
          length (fst (snd (directFetch P env formattedUrl w1))) < 100 \<longrightarrow>
            calls (fst (bothTiers P env firecrawlApiKey formattedUrl w1)) =
              calls (fst (directFetch P env formattedUrl w1)) @
              [FirecrawlScrape firecrawlApiKey
                 \<lparr>scrape_url = formattedUrl, formats = [ascii ''markdown''],
                  onlyMainContent = True\<rparr>] \<and>
            FirecrawlScrape firecrawlApiKey
                 \<lparr>scrape_url = formattedUrl, formats = [ascii ''markdown''],
                  onlyMainContent = True\<rparr> \<in> set (calls (fst (serve P env w)))) \<and>
         (\<forall>pageContent pageTitle.
            snd (bothTiers P env firecrawlApiKey formattedUrl w1) =
              Continue (JString pageContent, pageTitle) \<and> length pageContent < 50 \<longrightarrow>
            snd (serve P env w) = failure 400 MSG_CONTENT_TOO_SHORT \<and>
            aiCalls (fst (serve P env w)) = aiCalls w)"
proof -
  let ?a = "((u, formattedUrl), (firecrawlApiKey, geminiApiKey))"
  let ?scrape = "FirecrawlScrape firecrawlApiKey
      \<lparr>scrape_url = formattedUrl, formats = [ascii ''markdown''], onlyMainContent = True\<rparr>"
  have s: "serve P env w = caught (pipeline P env ?a w1)"
    using serve_pipeline [OF assms] .
  have fallback:
    "calls (fst (bothTiers P env firecrawlApiKey formattedUrl w1)) =
       calls (fst (directFetch P env formattedUrl w1)) @ [?scrape] \<and>
     ?scrape \<in> set (calls (fst (serve P env w)))"
    if short: "fst (snd (directFetch P env formattedUrl w1)) = [] \<or>
      length (fst (snd (directFetch P env formattedUrl w1))) < 100"
  proof -
    have t: "calls (fst (bothTiers P env firecrawlApiKey formattedUrl w1)) =
        calls (fst (directFetch P env formattedUrl w1)) @ [?scrape]"
      using short by (auto simp: bothTiers_world firecrawlCall_def)
    obtain rest where "calls (fst (pipeline P env ?a w1)) =
        calls (fst (fetchContent P env firecrawlApiKey formattedUrl w1)) @ rest"
      using pipeline_calls [of P env ?a w1] by auto
    then have "?scrape \<in> set (calls (fst (pipeline P env ?a w1)))"
      using t by (simp add: fetchContent_world)
    then show ?thesis
      using t by (simp add: s)
  qed
  have tooShort:
    "snd (serve P env w) = failure 400 MSG_CONTENT_TOO_SHORT \<and>
     aiCalls (fst (serve P env w)) = aiCalls w"
    if final: "snd (bothTiers P env firecrawlApiKey formattedUrl w1) =
        Continue (JString pageContent, pageTitle) \<and> length pageContent < 50"
    for pageContent pageTitle
  proof -
    obtain w2 where t: "bothTiers P env firecrawlApiKey formattedUrl w1 =
        (w2, Continue (JString pageContent, pageTitle))"
      using final by (cases "bothTiers P env firecrawlApiKey formattedUrl w1") simp
    have f: "fetchContent P env firecrawlApiKey formattedUrl w1 =
        (w2, Return (failure 400 MSG_CONTENT_TOO_SHORT))"
      using final by (simp add: fetchContent_def t)
    then have p: "pipeline P env ?a w1 = (w2, Return (failure 400 MSG_CONTENT_TOO_SHORT))"
      by (intro pipeline_stopped) simp
    have "aiCalls w2 = aiCalls w1"
      using aiCalls_fetchContent [of P env firecrawlApiKey formattedUrl w1] f by simp
    moreover have "aiCalls w1 = aiCalls w"
      using aiCalls_gate [of P env w] assms(2) by simp
    ultimately show ?thesis
      by (simp add: s p)
  qed
  show ?thesis
    using fallback tooShort by blast
qed

theorem C6_witness:
  "fst (snd (directFetch examplePlatform
      ((exampleEnv linkedinUrl)\<lparr>directResponse := Inr emptyPage, scrapeResponse := Inr shortScrape\<rparr>)
      linkedinUrl (worldAfterGate 3))) =
     ascii ''Title: '' @ [0x0A, 0x0A] @ ascii ''Description: '' @ [0x0A, 0x0A] @ [0x0A, 0x0A] @
     ascii ''Content:'' @ [0x0A] \<and>
   snd (bothTiers examplePlatform
      ((exampleEnv linkedinUrl)\<lparr>directResponse := Inr emptyPage, scrapeResponse := Inr shortScrape\<rparr>)
      (ascii ''fc-key'') linkedinUrl (worldAfterGate 3)) =
     Continue (JString (ascii ''Job closed.\<newline>''), JString []) \<and>
   calls (fst (bothTiers examplePlatform
      ((exampleEnv linkedinUrl)\<lparr>directResponse := Inr emptyPage, scrapeResponse := Inr shortScrape\<rparr>)
      (ascii ''fc-key'') linkedinUrl (worldAfterGate 3))) =
     [DirectFetch linkedinUrl,
      FirecrawlScrape (ascii ''fc-key'')
        \<lparr>scrape_url = linkedinUrl, formats = [ascii ''markdown''], onlyMainContent = True\<rparr>] \<and>
   snd (serve examplePlatform
      ((exampleEnv linkedinUrl)\<lparr>directResponse := Inr emptyPage, scrapeResponse := Inr shortScrape\<rparr>)
      (worldWithCredits 3)) = failure 400 MSG_CONTENT_TOO_SHORT \<and>
   aiCalls (fst (serve examplePlatform
      ((exampleEnv linkedinUrl)\<lparr>directResponse := Inr emptyPage, scrapeResponse := Inr shortScrape\<rparr>)
      (worldWithCredits 3))) = []"
proof -
  let ?env = "(exampleEnv linkedinUrl)\<lparr>directResponse := Inr emptyPage, scrapeResponse := Inr shortScrape\<rparr>"
  let ?content = "ascii ''Title: '' @ [0x0A, 0x0A] @ ascii ''Description: '' @ [0x0A, 0x0A] @
      [0x0A, 0x0A] @ ascii ''Content:'' @ [0x0A]"
  have post: "req_method ?env \<noteq> ascii ''OPTIONS''" by simp
  have g: "gate examplePlatform ?env (worldWithCredits 3) =
     (worldAfterGate 3, Continue ((linkedinUrl, linkedinUrl), (ascii ''fc-key'', ascii ''gm-key'')))"
    by (rule example_gate_linkedin) simp_all
  have d: "directFetch examplePlatform ?env linkedinUrl (worldAfterGate 3) =
      ((worldAfterGate 3)\<lparr>calls := [DirectFetch linkedinUrl]\<rparr>, ?content, [])"
    by (simp add: directFetch_def linkedin_is_linkedin emptyPage_def extractPage_empty)
  have short: "fst (snd (directFetch examplePlatform ?env linkedinUrl (worldAfterGate 3))) = [] \<or>
      length (fst (snd (directFetch examplePlatform ?env linkedinUrl (worldAfterGate 3)))) < 100"
    by (simp add: d)
  have final: "snd (bothTiers examplePlatform ?env (ascii ''fc-key'') linkedinUrl (worldAfterGate 3)) =
      Continue (JString (ascii ''Job closed.\<newline>''), JString [])"
    unfolding bothTiers_def d
    by (simp add: scrape_def shortScrape_def scrapeFailed_def member_def truthyU_def orElse_def)
  have len: "length (ascii ''Job closed.\<newline>'') < 50" by simp
  note claim = C6_two_tier_fallback [OF post g]
  have one: "calls (fst (bothTiers examplePlatform ?env (ascii ''fc-key'') linkedinUrl (worldAfterGate 3))) =
      calls (fst (directFetch examplePlatform ?env linkedinUrl (worldAfterGate 3))) @
      [FirecrawlScrape (ascii ''fc-key'')
         \<lparr>scrape_url = linkedinUrl, formats = [ascii ''markdown''], onlyMainContent = True\<rparr>]"
    using claim [THEN conjunct1] short by blast
  have two: "snd (serve examplePlatform ?env (worldWithCredits 3)) = failure 400 MSG_CONTENT_TOO_SHORT \<and>
      aiCalls (fst (serve examplePlatform ?env (worldWithCredits 3))) = aiCalls (worldWithCredits 3)"
    using claim [THEN conjunct2, rule_format, of "ascii ''Job closed.\<newline>''" "JString []"] final len
    by blast
  show ?thesis
    using one two final by (simp add: d aiCalls_def)
qed

section \<open>C7: the forced tool choice, and the arguments of a function call\<close>




section \<open>C8: the missing scheme\<close>

lemma formatUrl_prefixes:
  "\<not> startsWith (trim urlString) (ascii ''http'') \<Longrightarrow>
   formatUrl urlString = ascii ''https://'' @ trim urlString"
  by (simp add: formatUrl_def)

text \<open>
  Claim C8 at the input \<open>httpjobs.wanted.co.kr/wd/1\<close>. The input starts with no scheme
  (it holds no colon), but it starts with the four letters \<open>http\<close>, which is what line 231
  tests. So no \<open>https://\<close> is put in front, the URL parser is handed the input as it is
  and throws, and the validator answers that the URL is malformed. The comment of line
  230 says the protocol is added when it is missing. The second half of the claim holds:
  lemma \<open>validateUrl_wanted\<close>.
\<close>

theorem C8_scheme_missing_and_not_added:
  "\<not> startsWithScheme (ascii ''httpjobs.wanted.co.kr/wd/1'') \<and>
   formatUrl (ascii ''httpjobs.wanted.co.kr/wd/1'') = ascii ''httpjobs.wanted.co.kr/wd/1'' \<and>
   validateUrl examplePlatform (ascii ''httpjobs.wanted.co.kr/wd/1'') = rejected MSG_MALFORMED_URL"
proof -
  have noScheme: "\<not> startsWithScheme (ascii ''httpjobs.wanted.co.kr/wd/1'')"
    by (simp add: startsWithScheme_def isSchemeChar_def isDigitBetween_def ascii_def)
  have same: "formatUrl (ascii ''httpjobs.wanted.co.kr/wd/1'') = ascii ''httpjobs.wanted.co.kr/wd/1''"
    by (simp add: formatUrl_def trim_def isWhiteSpace_def startsWith_def ascii_def)
  have "URL_parse examplePlatform (ascii ''httpjobs.wanted.co.kr/wd/1'') = None"
    by (simp add: examplePlatform_def exampleUrls_def)
  then have "validateUrl examplePlatform (ascii ''httpjobs.wanted.co.kr/wd/1'') =
      rejected MSG_MALFORMED_URL"
    by (simp add: validateUrl_def same)
  then show ?thesis using noScheme same by simp
qed

section \<open>C9: what the catch of the handler answers\<close>




section \<open>C10: free text that is no JSON gives no tool call\<close>

lemma trim_apology: "trim (ascii ''Sorry, this page is empty.'') = ascii ''Sorry, this page is empty.''"
  by (simp add: trim_def isWhiteSpace_def ascii_def)

text \<open>
  Claim C10. Let the parts of the first candidate hold text (the concatenated text is not
  empty) and no function-call part. If the trimmed text does not parse as JSON, the
  normalized response carries the text as its message content and has no \<open>tool_calls\<close>.
  And in every case the response has \<open>tool_calls\<close> exactly when the trimmed text parses:
  a tool call is never made from text that is no JSON.
\<close>

theorem C10_text_that_is_no_json_gives_no_tool_call:
  assumes "partsOf aiData = Inr ps"
    and "functionPartOf ps = None"
    and "textPartsOf ps \<noteq> []"
  shows "(JSON_parse P (trim (textPartsOf ps)) = None \<longrightarrow>
           normalizeGeminiToLovable P aiData =
             Inr (Some \<lparr>choices =
               [\<lparr>message_content = Some (textPartsOf ps), tool_calls = None\<rparr>]\<rparr>)) \<and>
         (\<exists>m. normalizeGeminiToLovable P aiData = Inr (Some \<lparr>choices = [m]\<rparr>) \<and>
              message_content m = Some (textPartsOf ps) \<and>
              (tool_calls m = None) = (JSON_parse P (trim (textPartsOf ps)) = None))"
  using assms
  by (simp add: normalizeGeminiToLovable_def toolCallsOf_def split: option.splits)

theorem C10_witness:
  "partsOf (providerResponse [JObject [(ascii ''text'', JString (ascii ''Sorry, this page is empty.''))]])
     = Inr [JObject [(ascii ''text'', JString (ascii ''Sorry, this page is empty.''))]] \<and>
   functionPartOf [JObject [(ascii ''text'', JString (ascii ''Sorry, this page is empty.''))]] = None \<and>
   textPartsOf [JObject [(ascii ''text'', JString (ascii ''Sorry, this page is empty.''))]]
     = ascii ''Sorry, this page is empty.'' \<and>
   JSON_parse examplePlatform (trim (ascii ''Sorry, this page is empty.'')) = None \<and>
   normalizeGeminiToLovable examplePlatform
     (providerResponse [JObject [(ascii ''text'', JString (ascii ''Sorry, this page is empty.''))]])
     = Inr (Some \<lparr>choices =
         [\<lparr>message_content = Some (ascii ''Sorry, this page is empty.''), tool_calls = None\<rparr>]\<rparr>)"
proof -
  let ?ps = "[JObject [(ascii ''text'', JString (ascii ''Sorry, this page is empty.''))]]"
  have p: "partsOf (providerResponse ?ps) = Inr ?ps" by simp
  have f: "functionPartOf ?ps = None"
    by (simp add: functionPartOf_def truthyU_def)
  have t: "textPartsOf ?ps = ascii ''Sorry, this page is empty.''"
    by (simp add: textPartsOf_def textOf_def)
  have n: "textPartsOf ?ps \<noteq> []" by (simp add: t)
  have j: "JSON_parse examplePlatform (trim (ascii ''Sorry, this page is empty.'')) = None"
    by (simp add: trim_apology example_JSON_parse)
  show ?thesis
    using C10_text_that_is_no_json_gives_no_tool_call [OF p f n, of examplePlatform] p f t j
    by simp
qed

end
